theory Spec2Isabelle
  imports Complex_Main
begin

section \<open>Thrown values and the transient-call wrapper\<close>

text \<open>
  The repository holds two applications: the root application (\<^verbatim>\<open>src/...\<close>, Mongoose
  models, modules \<^verbatim>\<open>audio\<close>, \<^verbatim>\<open>conversation\<close>, \<^verbatim>\<open>voice\<close>, ...) and the application under
  \<^verbatim>\<open>v2/\<close> (native MongoDB driver). A definition without suffix embeds the root
  application's function; the suffix \<open>_v2\<close> marks the function of the same name under
  \<^verbatim>\<open>v2/\<close>.

  A thrown JavaScript value is a record of what the code inspects: whether the value is
  \<^verbatim>\<open>undefined\<close> or \<^verbatim>\<open>null\<close> (\<open>nullish\<close>), whether it is an \<^verbatim>\<open>Error\<close> object,
  \<^verbatim>\<open>error.status\<close>, \<^verbatim>\<open>error.response.status\<close> and \<^verbatim>\<open>error.message\<close>. For a value that is
  not an \<^verbatim>\<open>Error\<close> object, \<open>message\<close> holds \<^verbatim>\<open>String(value)\<close>. An absent status is
  \<open>None\<close>. A nullish value has no properties: reading one of them throws a
  \<^verbatim>\<open>TypeError\<close>, and the functions below test \<open>nullish\<close> before they read a field.
  On every other value these reads and \<^verbatim>\<open>String(value)\<close> answer: objects whose accessors
  or string conversion throw are not represented, a status is a number and a message is
  a string, as the code's type annotations have them.
\<close>

record js_error =
  nullish :: bool
  instanceof_Error :: bool
  status :: "int option"
  response_status :: "int option"
  message :: string

definition new_Error :: "string \<Rightarrow> js_error" where
  "new_Error msg =
     \<lparr>nullish = False, instanceof_Error = True, status = None, response_status = None,
      message = msg\<rparr>"

text \<open>The values \<^verbatim>\<open>undefined\<close> and \<^verbatim>\<open>null\<close>, when they are thrown.\<close>

definition js_undefined :: js_error where
  "js_undefined =
     \<lparr>nullish = True, instanceof_Error = False, status = None, response_status = None,
      message = ''undefined''\<rparr>"

definition js_null :: js_error where
  "js_null =
     \<lparr>nullish = True, instanceof_Error = False, status = None, response_status = None,
      message = ''null''\<rparr>"

text \<open>
  The \<^verbatim>\<open>TypeError\<close> of reading the property \<open>prop\<close> of a nullish value:
  \<^verbatim>\<open>Cannot read properties of undefined (reading 'status')\<close>.
\<close>

definition property_TypeError :: "js_error \<Rightarrow> string \<Rightarrow> js_error" where
  "property_TypeError error prop =
     \<lparr>nullish = False, instanceof_Error = True, status = None, response_status = None,
      message = ''Cannot read properties of '' @ message error @ '' (reading '' @
        [CHR 0x27] @ prop @ [CHR 0x27] @ '')''\<rparr>"

text \<open>\<^verbatim>\<open>error?.response?.status\<close>: the optional chain answers \<^verbatim>\<open>undefined\<close> on a nullish
  value.\<close>

definition optional_response_status :: "js_error \<Rightarrow> int option" where
  "optional_response_status error = (if nullish error then None else response_status error)"

text \<open>\<^verbatim>\<open>error instanceof Error ? error : new Error(String(error))\<close>\<close>

definition as_Error :: "js_error \<Rightarrow> js_error" where
  "as_Error error = (if instanceof_Error error then error else new_Error (message error))"

text \<open>\<^verbatim>\<open>error instanceof Error ? error.message : "Unknown error"\<close>\<close>

definition message_of :: "js_error \<Rightarrow> string" where
  "message_of error = (if instanceof_Error error then message error else ''Unknown error'')"

text \<open>
  An asynchronous zero-argument operation runs on a state \<open>'s\<close> (everything outside the
  wrapper: providers, database, files) and either throws (\<open>Inl\<close>) or returns (\<open>Inr\<close>).
  The wrapper's own observable effects are logged as events: each call of the operation
  and each \<^verbatim>\<open>setTimeout\<close> sleep with its delay in milliseconds.
\<close>

type_synonym ('s, 'a) operation = "'s \<Rightarrow> (js_error + 'a) \<times> 's"

datatype event = Invoke | Sleep nat

text \<open>
  Root application, \<^verbatim>\<open>status && status >= 400 && status < 500\<close> on \<^verbatim>\<open>error.status\<close>.
\<close>

definition client_error_status :: "int option \<Rightarrow> bool" where
  "client_error_status st =
     (case st of None \<Rightarrow> False | Some n \<Rightarrow> n \<noteq> 0 \<and> 400 \<le> n \<and> n < 500)"

text \<open>\<^verbatim>\<open>v2\<close>, \<^verbatim>\<open>status != null && status < 500\<close> on \<^verbatim>\<open>error.response?.status\<close>.\<close>

definition below_500_status :: "int option \<Rightarrow> bool" where
  "below_500_status st = (case st of None \<Rightarrow> False | Some n \<Rightarrow> n < 500)"

text \<open>
  The loop \<^verbatim>\<open>for (let attempt = 0; attempt <= maxRetries; attempt++)\<close> of the root
  application, from the state in which \<open>attempt\<close> and \<open>lastError\<close> have the given values.
  The retry count is a natural number. The delay is the constant 500 ms. The \<^verbatim>\<open>catch\<close>
  block reads \<^verbatim>\<open>error.status\<close> without a guard: on a nullish thrown value that read
  throws a \<^verbatim>\<open>TypeError\<close>, which leaves the wrapper.
\<close>

function retry_loop ::
  "('s, 'a) operation \<Rightarrow> nat \<Rightarrow> nat \<Rightarrow> js_error option \<Rightarrow> 's \<Rightarrow> event list
     \<Rightarrow> (js_error + 'a) \<times> 's \<times> event list" where
  "retry_loop operation maxRetries attempt lastError s tr =
     (if attempt \<le> maxRetries then
        (case operation s of
           (Inr v, s') \<Rightarrow> (Inr v, s', tr @ [Invoke])
         | (Inl error, s') \<Rightarrow>
             (if nullish error then
                (Inl (property_TypeError error ''status''), s', tr @ [Invoke])
              else if client_error_status (status error) then (Inl error, s', tr @ [Invoke])
              else if attempt < maxRetries then
                retry_loop operation maxRetries (attempt + 1) (Some (as_Error error)) s'
                  (tr @ [Invoke, Sleep 500])
              else
                retry_loop operation maxRetries (attempt + 1) (Some (as_Error error)) s'
                  (tr @ [Invoke])))
      else (Inl (case lastError of None \<Rightarrow> js_undefined | Some e \<Rightarrow> e), s, tr))"
  by pat_completeness auto
termination
  by (relation "measure (\<lambda>(operation, maxRetries, attempt, lastError, s, tr).
        maxRetries + 1 - attempt)") auto

declare retry_loop.simps [simp del]

text \<open>\<^verbatim>\<open>retryWithBackoff(operation, maxRetries = 1)\<close>; \<open>None\<close> is an omitted argument.\<close>

definition retryWithBackoff ::
  "('s, 'a) operation \<Rightarrow> nat option \<Rightarrow> 's \<Rightarrow> (js_error + 'a) \<times> 's \<times> event list" where
  "retryWithBackoff operation maxRetries s =
     retry_loop operation (case maxRetries of None \<Rightarrow> 1 | Some m \<Rightarrow> m) 0 None s []"

text \<open>
  The loop of \<^verbatim>\<open>v2/src/lib/errors.ts\<close>: \<open>lastError\<close> is the thrown value itself, the
  terminal test reads \<^verbatim>\<open>error?.response?.status\<close> (never \<^verbatim>\<open>error.status\<close>), the delay is
  \<^verbatim>\<open>Math.pow(2, attempt) * 1000\<close> ms.
\<close>

function retry_loop_v2 ::
  "('s, 'a) operation \<Rightarrow> nat \<Rightarrow> nat \<Rightarrow> js_error option \<Rightarrow> 's \<Rightarrow> event list
     \<Rightarrow> (js_error + 'a) \<times> 's \<times> event list" where
  "retry_loop_v2 operation maxRetries attempt lastError s tr =
     (if attempt \<le> maxRetries then
        (case operation s of
           (Inr v, s') \<Rightarrow> (Inr v, s', tr @ [Invoke])
         | (Inl error, s') \<Rightarrow>
             (if below_500_status (optional_response_status error) then
                (Inl error, s', tr @ [Invoke])
              else if attempt < maxRetries then
                retry_loop_v2 operation maxRetries (attempt + 1) (Some error) s'
                  (tr @ [Invoke, Sleep (2 ^ attempt * 1000)])
              else
                retry_loop_v2 operation maxRetries (attempt + 1) (Some error) s'
                  (tr @ [Invoke])))
      else (Inl (case lastError of None \<Rightarrow> js_undefined | Some e \<Rightarrow> e), s, tr))"
  by pat_completeness auto
termination
  by (relation "measure (\<lambda>(operation, maxRetries, attempt, lastError, s, tr).
        maxRetries + 1 - attempt)") auto

declare retry_loop_v2.simps [simp del]

text \<open>\<^verbatim>\<open>retryWithBackoff(operation, maxRetries = 2)\<close> of \<^verbatim>\<open>v2\<close>.\<close>

definition retryWithBackoff_v2 ::
  "('s, 'a) operation \<Rightarrow> nat option \<Rightarrow> 's \<Rightarrow> (js_error + 'a) \<times> 's \<times> event list" where
  "retryWithBackoff_v2 operation maxRetries s =
     retry_loop_v2 operation (case maxRetries of None \<Rightarrow> 2 | Some m \<Rightarrow> m) 0 None s []"

text \<open>The number of times a run called the operation.\<close>

definition invocations :: "event list \<Rightarrow> nat" where
  "invocations tr = count_list tr Invoke"

text \<open>The delays a run slept, in order.\<close>

fun sleeps :: "event list \<Rightarrow> nat list" where
  "sleeps [] = []"
| "sleeps (Invoke # tr) = sleeps tr"
| "sleeps (Sleep d # tr) = d # sleeps tr"

text \<open>The state in which the operation is called for the \<open>(n+1)\<close>-th time.\<close>

definition state_before :: "('s, 'a) operation \<Rightarrow> nat \<Rightarrow> 's \<Rightarrow> 's" where
  "state_before operation n s = ((\<lambda>x. snd (operation x)) ^^ n) s"

text \<open>
  Classes of thrown values the properties speak of: an operation that throws in every
  state, each time a value of the class \<open>P\<close>; a client-class (4xx) status; and no status
  or a server-class status.
\<close>

definition always_throws :: "(js_error \<Rightarrow> bool) \<Rightarrow> ('s, 'a) operation \<Rightarrow> bool" where
  "always_throws P operation = (\<forall>s. \<exists>e s'. operation s = (Inl e, s') \<and> P e)"

definition client_class :: "int option \<Rightarrow> bool" where
  "client_class st = (case st of None \<Rightarrow> False | Some n \<Rightarrow> 400 \<le> n \<and> n < 500)"


section \<open>Strings and numbers of the runtime\<close>

text \<open>\<^verbatim>\<open>s.includes(sub)\<close>\<close>

fun js_includes :: "string \<Rightarrow> string \<Rightarrow> bool" where
  "js_includes [] sub = (sub = [])"
| "js_includes (c # cs) sub = (take (length sub) (c # cs) = sub \<or> js_includes cs sub)"

text \<open>
  A JavaScript string is kept as the bytes of its UTF-8 encoding. \<^verbatim>\<open>s.length\<close> counts
  UTF-16 code units: one for every code point encoded in one to three bytes, two for
  every code point encoded in four bytes; a continuation byte counts nothing. Strings
  are well-formed: an unpaired surrogate has no UTF-8 encoding and is not represented.
\<close>

definition utf16_units :: "char \<Rightarrow> nat" where
  "utf16_units c =
     (if (of_char c :: nat) < 0x80 then 1
      else if (of_char c :: nat) < 0xC0 then 0
      else if (of_char c :: nat) < 0xF0 then 1
      else 2)"

definition js_length :: "string \<Rightarrow> nat" where
  "js_length s = sum_list (map utf16_units s)"

text \<open>
  The white space and line terminators \<^verbatim>\<open>String.prototype.trim\<close> removes, each as its
  UTF-8 bytes: U+0009 to U+000D, U+0020, U+00A0, U+1680, U+2000 to U+200A, U+2028,
  U+2029, U+202F, U+205F, U+3000 and U+FEFF.
\<close>

definition white_space :: "string list" where
  "white_space =
     [[CHR 0x09], [CHR 0x0A], [CHR 0x0B], [CHR 0x0C], [CHR 0x0D], [CHR 0x20],
      [CHR 0xC2, CHR 0xA0], [CHR 0xE1, CHR 0x9A, CHR 0x80],
      [CHR 0xE2, CHR 0x80, CHR 0x80], [CHR 0xE2, CHR 0x80, CHR 0x81],
      [CHR 0xE2, CHR 0x80, CHR 0x82], [CHR 0xE2, CHR 0x80, CHR 0x83],
      [CHR 0xE2, CHR 0x80, CHR 0x84], [CHR 0xE2, CHR 0x80, CHR 0x85],
      [CHR 0xE2, CHR 0x80, CHR 0x86], [CHR 0xE2, CHR 0x80, CHR 0x87],
      [CHR 0xE2, CHR 0x80, CHR 0x88], [CHR 0xE2, CHR 0x80, CHR 0x89],
      [CHR 0xE2, CHR 0x80, CHR 0x8A], [CHR 0xE2, CHR 0x80, CHR 0xA8],
      [CHR 0xE2, CHR 0x80, CHR 0xA9], [CHR 0xE2, CHR 0x80, CHR 0xAF],
      [CHR 0xE2, CHR 0x81, CHR 0x9F], [CHR 0xE3, CHR 0x80, CHR 0x80],
      [CHR 0xEF, CHR 0xBB, CHR 0xBF]]"

text \<open>Removes from the front of \<open>s\<close> every leading occurrence of one of the sequences.\<close>

function strip_leading :: "string list \<Rightarrow> string \<Rightarrow> string" where
  "strip_leading seqs s =
     (case find (\<lambda>q. q \<noteq> [] \<and> take (length q) s = q) seqs of
        None \<Rightarrow> s
      | Some q \<Rightarrow> strip_leading seqs (drop (length q) s))"
  by pat_completeness auto
termination
proof (relation "measure (\<lambda>(seqs, s). length s)")
  show "wf (measure (\<lambda>(seqs, s). length s))" by simp
next
  fix seqs :: "string list" and s q :: string
  assume "find (\<lambda>q. q \<noteq> [] \<and> take (length q) s = q) seqs = Some q"
  then have "q \<noteq> []" and "take (length q) s = q" by (auto simp: find_Some_iff)
  then have "s \<noteq> []" by auto
  with \<open>q \<noteq> []\<close> show "((seqs, drop (length q) s), (seqs, s)) \<in> measure (\<lambda>(seqs, s). length s)"
    by simp
qed

declare strip_leading.simps [simp del]

text \<open>\<^verbatim>\<open>s.trim()\<close>: the white space is removed at the front and, read backwards, at the
  end.\<close>

definition trim :: "string \<Rightarrow> string" where
  "trim s = rev (strip_leading (map rev white_space) (rev (strip_leading white_space s)))"

text \<open>\<^verbatim>\<open>xs.slice(-n)\<close>\<close>

definition slice_last :: "nat \<Rightarrow> 'a list \<Rightarrow> 'a list" where
  "slice_last n xs = drop (length xs - n) xs"

text \<open>A non-negative integer in a template string.\<close>

fun show_nat :: "nat \<Rightarrow> string" where
  "show_nat n =
     (if n < 10 then [''0123456789'' ! n]
      else show_nat (n div 10) @ [''0123456789'' ! (n mod 10)])"

declare show_nat.simps [simp del]

text \<open>
  \<^verbatim>\<open>(size / 1024 / 1024).toFixed(2)\<close>: the quotient is exact in binary floating point
  (for sizes below \<open>2 ^ 53\<close>), and \<^verbatim>\<open>toFixed\<close> rounds it to the nearest hundredth, upwards
  at a tie.
\<close>

definition toFixed2_MB :: "nat \<Rightarrow> string" where
  "toFixed2_MB sz =
     (let n = (200 * sz + 1048576) div 2097152
      in show_nat (n div 100) @ ''.'' @ show_nat (n mod 100 div 10) @ show_nat (n mod 10))"

text \<open>A JavaScript number as far as the audio code reads one: \<^verbatim>\<open>NaN\<close> or a real.\<close>

datatype js_number = NaN | Num real

text \<open>\<^verbatim>\<open>Math.round(d)\<close> of a non-negative number, in a template string.\<close>

definition show_round :: "real \<Rightarrow> string" where
  "show_round d = show_nat (nat \<lfloor>d + 1 / 2\<rfloor>)"

section \<open>The world of one request: providers, database, files\<close>

datatype role = User | Assistant | System

type_synonym ChatMessage = "role \<times> string"

type_synonym bytes = "nat list"

text \<open>
  A session and a message document. \<open>session_id\<close> is \<^verbatim>\<open>_id\<close>; ObjectIds are kept as their
  24-digit lower-case hexadecimal strings; dates are milliseconds.
\<close>

record session_doc =
  session_id :: string
  userId :: string
  createdAt :: nat
  lastActivityAt :: nat

record message_doc =
  sessionId :: string
  role :: role
  content :: string
  message_createdAt :: nat

text \<open>
  Everything an invocation reads or changes outside its own variables. The outcome of
  each effect the code has no control over is read from the world:
  \<^item> \<open>whisper_api\<close>, \<open>chat_api\<close>, \<open>speech_api\<close>: what the provider answers to its \<open>k\<close>-th
    call (\<open>Inl\<close>: the SDK throws), given the request; \<open>*_calls\<close> count the calls made;
  \<^item> \<open>db_fault k\<close>: the \<open>k\<close>-th database operation fails (connection or server error);
    \<open>db_ops\<close> counts them; \<open>clock\<close> is the current time, which advances with every
    database operation; \<open>id_gen k\<close> is the \<open>k\<close>-th ObjectId the driver generates;
  \<^item> \<open>files\<close>: the files on disk with their sizes; \<open>stat_error\<close>: paths on which
    \<^verbatim>\<open>statSync\<close> throws; \<open>write_fault\<close>, \<open>unlink_fault\<close>: paths on which \<^verbatim>\<open>writeFile\<close> and
    \<^verbatim>\<open>unlink\<close> fail; \<open>ffprobe\<close>: \<open>None\<close> when the command fails, else
    \<^verbatim>\<open>parseFloat(stdout.trim())\<close>; \<open>ffmpeg\<close>: \<open>None\<close> when the conversion of that input fails,
    else the size of the file it writes;
  \<^item> \<open>env_MAX_AUDIO_SIZE_MB\<close>, \<open>env_MAX_AUDIO_DURATION_SECONDS\<close>: the environment
    variables, unset or a decimal numeral; \<open>env_NODE_ENV\<close>; \<open>cwd\<close> and \<open>random_uuid\<close>:
    \<^verbatim>\<open>process.cwd()\<close> and the next \<^verbatim>\<open>randomUUID()\<close>.
\<close>

record world =
  whisper_api :: "nat \<Rightarrow> string \<Rightarrow> js_error + string"
  whisper_calls :: nat
  chat_api :: "nat \<Rightarrow> ChatMessage list \<Rightarrow> js_error + string option"
  chat_calls :: nat
  speech_api :: "nat \<Rightarrow> string \<Rightarrow> js_error + bytes"
  speech_calls :: nat
  sessions :: "session_doc list"
  messages :: "message_doc list"
  db_fault :: "nat \<Rightarrow> bool"
  db_ops :: nat
  clock :: nat
  id_gen :: "nat \<Rightarrow> string"
  id_count :: nat
  files :: "string \<rightharpoonup> nat"
  stat_error :: "string \<rightharpoonup> js_error"
  write_fault :: "string \<Rightarrow> bool"
  unlink_fault :: "string \<Rightarrow> bool"
  ffprobe :: "string \<Rightarrow> js_number option"
  ffmpeg :: "string \<Rightarrow> nat option"
  env_MAX_AUDIO_SIZE_MB :: "nat option"
  env_MAX_AUDIO_DURATION_SECONDS :: "nat option"
  env_NODE_ENV :: "string option"
  cwd :: string
  random_uuid :: string

section \<open>Database functions\<close>

text \<open>
  \<^verbatim>\<open>new ObjectId(s)\<close>, and the cast Mongoose applies to a filter or document value of
  type ObjectId: a string of 24 hexadecimal digits is accepted, read without regard to
  case; \<open>None\<close> when the constructor throws.
\<close>

definition is_hex_digit :: "char \<Rightarrow> bool" where
  "is_hex_digit c = (c \<in> set ''0123456789abcdefABCDEF'')"

definition hex_lower :: "char \<Rightarrow> char" where
  "hex_lower c = (if c \<in> set ''ABCDEF'' then char_of (of_char c + (32::nat)) else c)"

definition ObjectId :: "string \<Rightarrow> string option" where
  "ObjectId s =
     (if length s = 24 \<and> list_all is_hex_digit s then Some (map hex_lower s) else None)"

text \<open>
  A database function first reaches the server (\<^verbatim>\<open>connectDB()\<close>, \<^verbatim>\<open>getDb()\<close> and the
  query itself): one operation of the world, which may fail.
\<close>

definition db_begin :: "world \<Rightarrow> bool \<times> world" where
  "db_begin w = (db_fault w (db_ops w), w\<lparr>db_ops := db_ops w + 1, clock := clock w + 1\<rparr>)"

definition db_error :: js_error where
  "db_error = new_Error ''MongoNetworkError''"

text \<open>The error of a failed cast, which rejects the query or the document.\<close>

definition CastError :: "string \<Rightarrow> js_error" where
  "CastError path = new_Error (''Cast to ObjectId failed at path '' @ path)"

text \<open>\<^verbatim>\<open>updateOne\<close>, \<^verbatim>\<open>findByIdAndUpdate\<close>: the first document that matches is changed.\<close>

fun update_first :: "('a \<Rightarrow> bool) \<Rightarrow> ('a \<Rightarrow> 'a) \<Rightarrow> 'a list \<Rightarrow> 'a list" where
  "update_first P f [] = []"
| "update_first P f (x # xs) = (if P x then f x # xs else x # update_first P f xs)"

text \<open>\<^verbatim>\<open>cursor.limit(n)\<close>: a limit of 0 is no limit.\<close>

definition mongo_limit :: "nat \<Rightarrow> 'a list \<Rightarrow> 'a list" where
  "mongo_limit n xs = (if n = 0 then xs else take n xs)"

text \<open>\<^verbatim>\<open>if (sessionId)\<close>: neither \<^verbatim>\<open>null\<close> nor the empty string.\<close>

definition truthy :: "string option \<Rightarrow> string option" where
  "truthy x = (case x of None \<Rightarrow> None | Some s \<Rightarrow> if s = [] then None else Some s)"

subsection \<open>Root application: \<^verbatim>\<open>src/modules/session.ts\<close>, \<^verbatim>\<open>conversation.ts\<close>\<close>

text \<open>
  \<^verbatim>\<open>userId\<close> is the authenticated user's id. Each \<^verbatim>\<open>catch\<close> of these functions logs
  and throws the error again.
\<close>

definition createSession :: "string \<Rightarrow> (world, string) operation" where
  "createSession uid w =
     (case db_begin w of
        (True, w1) \<Rightarrow> (Inl db_error, w1)
      | (False, w1) \<Rightarrow>
          (let i = id_gen w1 (id_count w1) in
           (Inr i,
            w1\<lparr>sessions := sessions w1 @
                  [\<lparr>session_id = i, userId = uid, createdAt = clock w1,
                    lastActivityAt = clock w1\<rparr>],
                id_count := id_count w1 + 1\<rparr>)))"

definition getSession :: "string \<Rightarrow> string \<Rightarrow> (world, session_doc option) operation" where
  "getSession sid uid w =
     (case db_begin w of
        (True, w1) \<Rightarrow> (Inl db_error, w1)
      | (False, w1) \<Rightarrow>
          (case ObjectId sid of
             None \<Rightarrow> (Inl (CastError ''_id''), w1)
           | Some oid \<Rightarrow>
               (Inr (find (\<lambda>s. session_id s = oid \<and> userId s = uid) (sessions w1)), w1)))"

definition findByIdAndUpdate_lastActivityAt :: "string \<Rightarrow> (world, unit) operation" where
  "findByIdAndUpdate_lastActivityAt sid w =
     (case db_begin w of
        (True, w1) \<Rightarrow> (Inl db_error, w1)
      | (False, w1) \<Rightarrow>
          (case ObjectId sid of
             None \<Rightarrow> (Inl (CastError ''_id''), w1)
           | Some oid \<Rightarrow>
               (Inr (),
                w1\<lparr>sessions := update_first (\<lambda>s. session_id s = oid)
                      (\<lambda>s. s\<lparr>lastActivityAt := clock w1\<rparr>) (sessions w1)\<rparr>)))"

definition getOrCreateSession :: "string \<Rightarrow> string option \<Rightarrow> (world, string) operation" where
  "getOrCreateSession uid sessionId_opt w =
     (case truthy sessionId_opt of
        None \<Rightarrow> createSession uid w
      | Some sid \<Rightarrow>
          (case getSession sid uid w of
             (Inl error, w1) \<Rightarrow> (Inl error, w1)
           | (Inr None, w1) \<Rightarrow> createSession uid w1
           | (Inr (Some session), w1) \<Rightarrow>
               (case findByIdAndUpdate_lastActivityAt sid w1 of
                  (Inl error, w2) \<Rightarrow> (Inl error, w2)
                | (Inr u, w2) \<Rightarrow> (Inr sid, w2))))"

text \<open>\<^verbatim>\<open>getConversationHistory(sessionId, limit = 20)\<close>\<close>

definition getConversationHistory ::
  "string \<Rightarrow> nat option \<Rightarrow> (world, ChatMessage list) operation" where
  "getConversationHistory sid limit w =
     (case db_begin w of
        (True, w1) \<Rightarrow> (Inl db_error, w1)
      | (False, w1) \<Rightarrow>
          (case ObjectId sid of
             None \<Rightarrow> (Inl (CastError ''sessionId''), w1)
           | Some oid \<Rightarrow>
               (Inr (map (\<lambda>msg. (role msg, content msg))
                      (mongo_limit (case limit of None \<Rightarrow> 20 | Some n \<Rightarrow> n)
                         (sort_key message_createdAt
                            (filter (\<lambda>msg. sessionId msg = oid) (messages w1))))),
                w1)))"

text \<open>
  \<^verbatim>\<open>saveMessage\<close>: \<^verbatim>\<open>Message.create\<close> validates the document (the session id is cast,
  \<^verbatim>\<open>content\<close> is required, which an empty string is not) and inserts it with the
  current time.
\<close>

definition saveMessage :: "string \<Rightarrow> role \<Rightarrow> string \<Rightarrow> (world, unit) operation" where
  "saveMessage sid r c w =
     (case db_begin w of
        (True, w1) \<Rightarrow> (Inl db_error, w1)
      | (False, w1) \<Rightarrow>
          (case ObjectId sid of
             None \<Rightarrow> (Inl (CastError ''sessionId''), w1)
           | Some oid \<Rightarrow>
               (if c = [] then (Inl (new_Error ''Path `content` is required.''), w1)
                else
                  (Inr (),
                   w1\<lparr>messages := messages w1 @
                         [\<lparr>sessionId = oid, role = r, content = c,
                           message_createdAt = clock w1\<rparr>]\<rparr>))))"

subsection \<open>\<^verbatim>\<open>v2\<close>: \<^verbatim>\<open>lib/conversation.ts\<close>\<close>

definition createSession_v2 :: "string \<Rightarrow> (world, string) operation" where
  "createSession_v2 uid w =
     (case db_begin w of
        (True, w1) \<Rightarrow> (Inl db_error, w1)
      | (False, w1) \<Rightarrow>
          (let i = id_gen w1 (id_count w1) in
           (Inr i,
            w1\<lparr>sessions := sessions w1 @
                  [\<lparr>session_id = i, userId = uid, createdAt = clock w1,
                    lastActivityAt = clock w1\<rparr>],
                id_count := id_count w1 + 1\<rparr>)))"

text \<open>The \<^verbatim>\<open>try\<close> around \<^verbatim>\<open>new ObjectId(sessionId)\<close> returns \<^verbatim>\<open>null\<close>.\<close>

definition getSession_v2 :: "string \<Rightarrow> string \<Rightarrow> (world, session_doc option) operation" where
  "getSession_v2 sid uid w =
     (case db_begin w of
        (True, w1) \<Rightarrow> (Inl db_error, w1)
      | (False, w1) \<Rightarrow>
          (case ObjectId sid of
             None \<Rightarrow> (Inr None, w1)
           | Some oid \<Rightarrow>
               (Inr (find (\<lambda>s. session_id s = oid \<and> userId s = uid) (sessions w1)), w1)))"

definition updateOne_lastActivityAt :: "string \<Rightarrow> (world, unit) operation" where
  "updateOne_lastActivityAt oid w =
     (case db_begin w of
        (True, w1) \<Rightarrow> (Inl db_error, w1)
      | (False, w1) \<Rightarrow>
          (Inr (),
           w1\<lparr>sessions := update_first (\<lambda>s. session_id s = oid)
                 (\<lambda>s. s\<lparr>lastActivityAt := clock w1\<rparr>) (sessions w1)\<rparr>))"

definition getOrCreateSession_v2 :: "string \<Rightarrow> string option \<Rightarrow> (world, string) operation" where
  "getOrCreateSession_v2 uid sessionId_opt w =
     (case truthy sessionId_opt of
        None \<Rightarrow> createSession_v2 uid w
      | Some sid \<Rightarrow>
          (case getSession_v2 sid uid w of
             (Inl error, w1) \<Rightarrow> (Inl error, w1)
           | (Inr None, w1) \<Rightarrow> createSession_v2 uid w1
           | (Inr (Some session), w1) \<Rightarrow>
               (case updateOne_lastActivityAt (session_id session) w1 of
                  (Inl error, w2) \<Rightarrow> (Inl error, w2)
                | (Inr u, w2) \<Rightarrow> (Inr sid, w2))))"

definition getConversationHistory_v2 ::
  "string \<Rightarrow> nat option \<Rightarrow> (world, ChatMessage list) operation" where
  "getConversationHistory_v2 sid limit w =
     (case db_begin w of
        (True, w1) \<Rightarrow> (Inl db_error, w1)
      | (False, w1) \<Rightarrow>
          (case ObjectId sid of
             None \<Rightarrow> (Inr [], w1)
           | Some oid \<Rightarrow>
               (Inr (map (\<lambda>msg. (role msg, content msg))
                      (mongo_limit (case limit of None \<Rightarrow> 20 | Some n \<Rightarrow> n)
                         (sort_key message_createdAt
                            (filter (\<lambda>msg. sessionId msg = oid) (messages w1))))),
                w1)))"

section \<open>Provider clients of the root application\<close>

text \<open>
  \<^verbatim>\<open>transcribeAudio\<close> (\<^verbatim>\<open>modules/stt.ts\<close>): one call of the transcription provider;
  a failure is thrown again as a new \<^verbatim>\<open>Error\<close>, which carries no status.
\<close>

definition transcribeAudio :: "string \<Rightarrow> (world, string) operation" where
  "transcribeAudio audioFilePath w =
     (let w' = w\<lparr>whisper_calls := whisper_calls w + 1\<rparr> in
      case whisper_api w (whisper_calls w) audioFilePath of
        Inr text \<Rightarrow> (Inr text, w')
      | Inl error \<Rightarrow>
          (let msg = message_of error;
               isTimeout = (js_includes msg ''timeout'' \<or> js_includes msg ''Connection error'')
           in (Inl (new_Error
                 (if isTimeout
                  then ''STT timed out '' @ [CHR 0xE2, CHR 0x80, CHR 0x94] @
                       '' please try speaking again''
                  else ''STT failed: '' @ msg)), w')))"

text \<open>
  \<^verbatim>\<open>generateResponse\<close> (\<^verbatim>\<open>modules/llm.ts\<close>): the prompt is the system instruction, the
  last ten entries of the history and the utterance; an answer without text is an error.
\<close>

definition system_prompt :: string where
  "system_prompt = ''You are a helpful voice assistant. Keep responses concise and natural for voice conversation. Maximum 2-3 sentences.''"

definition generateResponse :: "string \<Rightarrow> ChatMessage list \<Rightarrow> (world, string) operation" where
  "generateResponse userText conversationHistory w =
     (let prompt = [(System, system_prompt)] @ slice_last 10 conversationHistory @
                   [(User, userText)];
          w' = w\<lparr>chat_calls := chat_calls w + 1\<rparr>
      in case chat_api w (chat_calls w) prompt of
           Inl error \<Rightarrow> (Inl (new_Error (''LLM failed: '' @ message_of error)), w')
         | Inr None \<Rightarrow> (Inl (new_Error ''LLM failed: Empty response from LLM''), w')
         | Inr (Some responseText) \<Rightarrow>
             (if responseText = []
              then (Inl (new_Error ''LLM failed: Empty response from LLM''), w')
              else (Inr responseText, w')))"

text \<open>
  \<^verbatim>\<open>synthesizeSpeech\<close> (\<^verbatim>\<open>modules/tts.ts\<close>): both checks throw inside the function's own
  \<^verbatim>\<open>try\<close>, whose \<^verbatim>\<open>catch\<close> throws \<^verbatim>\<open>new Error(`TTS failed: ${message}`)\<close>.
\<close>

definition synthesizeSpeech :: "string \<Rightarrow> (world, bytes) operation" where
  "synthesizeSpeech text w =
     (if text = [] \<or> js_length (trim text) = 0 then
        (Inl (new_Error (''TTS failed: '' @ ''Text is required for TTS'')), w)
      else if js_length text > 4096 then
        (Inl (new_Error (''TTS failed: '' @ ''Text exceeds 4096 character limit ('' @
                show_nat (js_length text) @ '' chars)'')), w)
      else
        (let w' = w\<lparr>speech_calls := speech_calls w + 1\<rparr> in
         case speech_api w (speech_calls w) text of
           Inl error \<Rightarrow> (Inl (new_Error (''TTS failed: '' @ message_of error)), w')
         | Inr buffer \<Rightarrow> (Inr buffer, w')))"

section \<open>Audio validation and preparation\<close>

record AudioValidationResult =
  valid :: bool
  duration :: "js_number option"
  size_bytes :: "nat option"
  error :: "string option"

definition invalid_audio :: "string \<Rightarrow> AudioValidationResult" where
  "invalid_audio reason =
     \<lparr>valid = False, duration = None, size_bytes = None, error = Some reason\<rparr>"

text \<open>\<^verbatim>\<open>(parseInt(process.env.MAX_AUDIO_SIZE_MB || "25") || 25) * 1024 * 1024\<close>\<close>

definition maxSize :: "world \<Rightarrow> nat" where
  "maxSize w =
     (case env_MAX_AUDIO_SIZE_MB w of None \<Rightarrow> 25 | Some n \<Rightarrow> if n = 0 then 25 else n)
       * 1024 * 1024"

text \<open>\<^verbatim>\<open>${process.env.MAX_AUDIO_SIZE_MB || 25}\<close>\<close>

definition show_max_size_mb :: "world \<Rightarrow> string" where
  "show_max_size_mb w = (case env_MAX_AUDIO_SIZE_MB w of None \<Rightarrow> ''25'' | Some n \<Rightarrow> show_nat n)"

text \<open>\<^verbatim>\<open>parseInt(process.env.MAX_AUDIO_DURATION_SECONDS || "300")\<close>\<close>

definition maxDuration :: "world \<Rightarrow> nat" where
  "maxDuration w = (case env_MAX_AUDIO_DURATION_SECONDS w of None \<Rightarrow> 300 | Some n \<Rightarrow> n)"

text \<open>
  The body of the outer \<^verbatim>\<open>try\<close> of the root application's \<^verbatim>\<open>validateAudio\<close>: \<open>Inl\<close> is
  an exception that leaves the body (\<^verbatim>\<open>statSync\<close> throws). The inner \<^verbatim>\<open>try\<close> around the
  probe catches its failure and answers \<^verbatim>\<open>{ valid: true, size }\<close>.
\<close>

definition validateAudio_try :: "world \<Rightarrow> string \<Rightarrow> js_error + AudioValidationResult" where
  "validateAudio_try w filePath =
     (case files w filePath of
        None \<Rightarrow> Inr (invalid_audio ''Audio file not found'')
      | Some sz \<Rightarrow>
          (case stat_error w filePath of
             Some e \<Rightarrow> Inl e
           | None \<Rightarrow>
               (if sz > maxSize w then
                  Inr (invalid_audio (''Audio file too large ('' @ toFixed2_MB sz @
                         ''MB). Maximum: '' @ show_max_size_mb w @ ''MB''))
                else
                  (case ffprobe w filePath of
                     None \<Rightarrow>
                       Inr \<lparr>valid = True, duration = None, size_bytes = Some sz, error = None\<rparr>
                   | Some d \<Rightarrow>
                       (if (case d of NaN \<Rightarrow> False | Num x \<Rightarrow> x > real (maxDuration w))
                        then
                          Inr (invalid_audio (''Audio duration too long ('' @
                                 (case d of NaN \<Rightarrow> ''NaN'' | Num x \<Rightarrow> show_round x) @
                                 ''s). Maximum: '' @ show_nat (maxDuration w) @ ''s''))
                        else
                          Inr \<lparr>valid = True, duration = Some d, size_bytes = Some sz,
                               error = None\<rparr>)))))"

text \<open>The outer \<^verbatim>\<open>catch\<close> turns an exception into an invalid result.\<close>

definition validateAudio :: "world \<Rightarrow> string \<Rightarrow> js_error + AudioValidationResult" where
  "validateAudio w filePath =
     (case validateAudio_try w filePath of
        Inl err \<Rightarrow> Inr (invalid_audio (message_of err))
      | Inr r \<Rightarrow> Inr r)"

text \<open>
  \<^verbatim>\<open>validateAudio\<close> of \<^verbatim>\<open>v2/src/lib/audio.ts\<close>: no outer \<^verbatim>\<open>try\<close>; the \<^verbatim>\<open>catch\<close> around the
  probe answers an invalid result.
\<close>

definition validateAudio_v2 :: "world \<Rightarrow> string \<Rightarrow> js_error + AudioValidationResult" where
  "validateAudio_v2 w filePath =
     (case files w filePath of
        None \<Rightarrow> Inr (invalid_audio ''Audio file not found'')
      | Some sz \<Rightarrow>
          (case stat_error w filePath of
             Some e \<Rightarrow> Inl e
           | None \<Rightarrow>
               (if sz > 25 * 1024 * 1024 then
                  Inr (invalid_audio ''Audio file too large (max 25MB)'')
                else
                  (case ffprobe w filePath of
                     None \<Rightarrow> Inr (invalid_audio ''Invalid audio file or format not supported'')
                   | Some d \<Rightarrow>
                       (if (case d of NaN \<Rightarrow> True | Num x \<Rightarrow> x > 300) then
                          Inr (invalid_audio ''Audio duration too long (max 5 minutes)'')
                        else
                          Inr \<lparr>valid = True, duration = Some d, size_bytes = Some sz,
                               error = None\<rparr>)))))"

text \<open>
  \<^verbatim>\<open>prepareAudioForWhisper\<close> of the root application: the converted file is written
  beside the input, the input is removed, and any failure inside the \<^verbatim>\<open>try\<close> (of the
  conversion or of \<^verbatim>\<open>unlinkSync\<close>) answers the input path.
\<close>

definition prepareAudioForWhisper :: "string \<Rightarrow> world \<Rightarrow> string \<times> world" where
  "prepareAudioForWhisper inputPath w =
     (let outputPath = inputPath @ ''.wav'' in
      case ffmpeg w inputPath of
        None \<Rightarrow> (inputPath, w)
      | Some out_size \<Rightarrow>
          (let w1 = w\<lparr>files := (files w)(outputPath \<mapsto> out_size)\<rparr> in
           if inputPath \<noteq> outputPath \<and> files w1 inputPath \<noteq> None then
             (if unlink_fault w1 inputPath then (inputPath, w1)
              else (outputPath, w1\<lparr>files := (files w1)(inputPath := None)\<rparr>))
           else (outputPath, w1)))"

section \<open>The voice pipeline of the root application\<close>

record VoiceConversationParams =
  param_userId :: string
  param_sessionId :: string
  param_audioFilePath :: string

record VoiceConversationResult =
  audio :: bytes
  transcript :: string
  response :: string

text \<open>
  \<^verbatim>\<open>handleVoiceConversation\<close> (\<^verbatim>\<open>modules/voice.ts\<close>). Every \<^verbatim>\<open>await\<close> that throws leaves
  the \<^verbatim>\<open>try\<close>; the \<^verbatim>\<open>catch\<close> logs and throws the error again.
\<close>

definition handleVoiceConversation ::
  "VoiceConversationParams \<Rightarrow> (world, VoiceConversationResult) operation" where
  "handleVoiceConversation params w =
     (case retryWithBackoff (transcribeAudio (param_audioFilePath params)) (Some 2) w of
        (Inl err, w1, tr1) \<Rightarrow> (Inl err, w1)
      | (Inr transcript_text, w1, tr1) \<Rightarrow>
          (if transcript_text = [] \<or> js_length (trim transcript_text) = 0 then
             (Inl (new_Error ''No speech detected in audio''), w1)
           else
             (case getConversationHistory (param_sessionId params) (Some 20) w1 of
                (Inl err, w2) \<Rightarrow> (Inl err, w2)
              | (Inr history, w2) \<Rightarrow>
                  (case retryWithBackoff (generateResponse transcript_text history) (Some 2) w2 of
                     (Inl err, w3, tr3) \<Rightarrow> (Inl err, w3)
                   | (Inr responseText, w3, tr3) \<Rightarrow>
                       (case retryWithBackoff (synthesizeSpeech responseText) (Some 2) w3 of
                          (Inl err, w4, tr4) \<Rightarrow> (Inl err, w4)
                        | (Inr audio_buffer, w4, tr4) \<Rightarrow>
                            (case saveMessage (param_sessionId params) User transcript_text w4 of
                               (Inl err, w5) \<Rightarrow> (Inl err, w5)
                             | (Inr u, w5) \<Rightarrow>
                                 (case saveMessage (param_sessionId params) Assistant
                                         responseText w5 of
                                    (Inl err, w6) \<Rightarrow> (Inl err, w6)
                                  | (Inr u', w6) \<Rightarrow>
                                      (Inr \<lparr>audio = audio_buffer,
                                            transcript = transcript_text,
                                            response = responseText\<rparr>, w6))))))))"

section \<open>The voice-conversation endpoint of the root application\<close>

text \<open>
  An HTTP result: a JSON body \<^verbatim>\<open>{error, message}\<close> with its status, or the audio with
  the headers \<^verbatim>\<open>X-Session-Id\<close>, \<^verbatim>\<open>X-Transcript\<close>, \<^verbatim>\<open>X-Response-Text\<close> (before URI
  encoding).
\<close>

datatype http_response =
    Json nat string "string option"
  | AudioResponse bytes string string string

text \<open>
  \<^verbatim>\<open>handleApiError\<close> (\<^verbatim>\<open>lib/errors.ts\<close>). It reads \<^verbatim>\<open>apiError.status\<close> without a guard, so
  on a nullish value it throws (\<open>Inl\<close>) instead of answering.
\<close>

definition handleApiError :: "world \<Rightarrow> js_error \<Rightarrow> js_error + http_response" where
  "handleApiError w err_value =
     (let err = as_Error err_value in
      if nullish err_value then Inl (property_TypeError err_value ''status'')
      else if status err_value = Some 429 then
        Inr (Json 429 ''RATE_LIMIT_EXCEEDED''
          (Some ''API rate limit exceeded. Please try again later.''))
      else if status err_value = Some 401 then
        Inr (Json 500 ''INVALID_OPENAI_KEY''
          (Some ''Invalid OpenAI API key configured on server''))
      else if js_includes (message err) ''Connection error'' \<or>
              js_includes (message err) ''timeout'' \<or>
              js_includes (message err) ''ECONNREFUSED'' \<or>
              js_includes (message err) ''ETIMEDOUT'' then
        Inr (Json 502 ''CONNECTION_ERROR''
          (Some ''Failed to connect to AI service. Please try again.''))
      else if js_includes (message err) ''Invalid'' \<or>
              js_includes (message err) ''required'' \<or>
              js_includes (message err) ''exceeds'' then
        Inr (Json 400 ''VALIDATION_ERROR'' (Some (message err)))
      else
        Inr (Json 500 ''INTERNAL_SERVER_ERROR''
          (Some (if env_NODE_ENV w = Some ''development'' then message err
                 else ''An internal server error occurred''))))"

text \<open>The upload of the multipart body, and the request as the handler reads it:
  what \<^verbatim>\<open>authenticate(req)\<close> answers (a response or the user's id) and what
  \<^verbatim>\<open>req.formData()\<close> answers.\<close>

record upload =
  upload_name :: string
  upload_type :: string
  upload_size :: nat

record form_data =
  form_audio :: "upload option"
  form_sessionId :: "string option"

record request =
  authenticate :: "http_response + string"
  formData :: "js_error + form_data"

definition ALLOWED_TYPES :: "string list" where
  "ALLOWED_TYPES =
     [''audio/wav'', ''audio/mpeg'', ''audio/mp3'', ''audio/webm'', ''audio/ogg'',
      ''audio/flac'', ''audio/x-wav'', ''audio/wave'']"

text \<open>\<^verbatim>\<open>writeFile(path, bytes)\<close>\<close>

definition writeFile :: "string \<Rightarrow> nat \<Rightarrow> (world, unit) operation" where
  "writeFile path n w =
     (if write_fault w path then (Inl (new_Error ''ENOENT: no such file or directory''), w)
      else (Inr (), w\<lparr>files := (files w)(path \<mapsto> n)\<rparr>))"

text \<open>
  \<^verbatim>\<open>cleanupFile\<close>: removes the file when the path is set and the file exists; a failure
  of \<^verbatim>\<open>unlink\<close> is ignored.
\<close>

definition cleanupFile :: "string option \<Rightarrow> world \<Rightarrow> world" where
  "cleanupFile filePath w =
     (case truthy filePath of
        None \<Rightarrow> w
      | Some path \<Rightarrow>
          (if files w path \<noteq> None then
             (if unlink_fault w path then w else w\<lparr>files := (files w)(path := None)\<rparr>)
           else w))"

text \<open>The \<^verbatim>\<open>catch\<close> block of \<^verbatim>\<open>POST\<close>, with the values the two path variables have.\<close>

definition POST_catch ::
  "string option \<Rightarrow> string option \<Rightarrow> js_error \<Rightarrow> world
     \<Rightarrow> (js_error + http_response) \<times> world" where
  "POST_catch audioFilePath preparedPath err w =
     (let w1 = (if truthy preparedPath \<noteq> None then cleanupFile preparedPath w else w);
          w2 = (if truthy audioFilePath \<noteq> None \<and> audioFilePath \<noteq> preparedPath
                then cleanupFile audioFilePath w1 else w1)
      in (handleApiError w2 err, w2))"

text \<open>
  The path of the temporary file: \<^verbatim>\<open>path.join(process.cwd(), "uploads")\<close> joined with
  \<^verbatim>\<open>`${randomUUID()}-${audioFile.name || "audio"}`\<close>. The join is the concatenation
  with a separator; the normalisation of the joined path is not modelled.
\<close>

definition audioFilePath_of :: "world \<Rightarrow> upload \<Rightarrow> string" where
  "audioFilePath_of w audioFile =
     (let uploadsDir = cwd w @ ''/'' @ ''uploads'';
          fileName = random_uuid w @ ''-'' @
            (if upload_name audioFile = [] then ''audio'' else upload_name audioFile)
      in uploadsDir @ ''/'' @ fileName)"

text \<open>
  \<^verbatim>\<open>POST\<close> of the voice-conversation route. Each \<^verbatim>\<open>return\<close> inside the \<^verbatim>\<open>try\<close> returns
  its response as it is (\<open>Inr\<close>); only an exception reaches the \<^verbatim>\<open>catch\<close> block, and the
  handler itself throws (\<open>Inl\<close>) only when \<^verbatim>\<open>handleApiError\<close> does.
\<close>

definition POST :: "request \<Rightarrow> world \<Rightarrow> (js_error + http_response) \<times> world" where
  "POST req w =
     (case authenticate req of
        Inl authResult \<Rightarrow> (Inr authResult, w)
      | Inr user_id \<Rightarrow>
     (case formData req of
        Inl err \<Rightarrow> POST_catch None None err w
      | Inr fd \<Rightarrow>
     (case form_audio fd of
        None \<Rightarrow> (Inr (Json 400 ''VALIDATION_ERROR'' (Some ''Audio file is required'')), w)
      | Some audioFile \<Rightarrow>
          if upload_type audioFile \<notin> set ALLOWED_TYPES then
            (Inr (Json 400 ''VALIDATION_ERROR''
               (Some ''Invalid audio format. Supported: WAV, MP3, WebM, OGG, FLAC'')), w)
          else if upload_size audioFile > maxSize w then
            (Inr (Json 400 ''VALIDATION_ERROR''
               (Some (''Audio file too large. Maximum: '' @ show_max_size_mb w @ ''MB''))), w)
          else
     (let audioFilePath = audioFilePath_of w audioFile
      in
     (case writeFile audioFilePath (upload_size audioFile) w of
        (Inl err, w1) \<Rightarrow> POST_catch (Some audioFilePath) None err w1
      | (Inr u, w1) \<Rightarrow>
     (case validateAudio w1 audioFilePath of
        Inl err \<Rightarrow> POST_catch (Some audioFilePath) None err w1
      | Inr validation \<Rightarrow>
          if \<not> valid validation then
            (Inr (Json 400 ''VALIDATION_ERROR'' (error validation)), w1)
          else
     (case getOrCreateSession user_id (truthy (form_sessionId fd)) w1 of
        (Inl err, w2) \<Rightarrow> POST_catch (Some audioFilePath) None err w2
      | (Inr activeSessionId, w2) \<Rightarrow>
     (case prepareAudioForWhisper audioFilePath w2 of
        (preparedPath, w3) \<Rightarrow>
     (case handleVoiceConversation
             \<lparr>param_userId = user_id, param_sessionId = activeSessionId,
              param_audioFilePath = preparedPath\<rparr> w3 of
        (Inl err, w4) \<Rightarrow> POST_catch (Some audioFilePath) (Some preparedPath) err w4
      | (Inr result, w4) \<Rightarrow>
          (let w5 = cleanupFile (Some preparedPath) w4;
               w6 = (if preparedPath \<noteq> audioFilePath
                     then cleanupFile (Some audioFilePath) w5 else w5)
           in (Inr (AudioResponse (audio result) activeSessionId (transcript result)
                 (response result)), w6)))))))))))"

section \<open>A world for the examples\<close>

text \<open>
  A world in which nothing fails: the providers answer, the database is empty and
  reachable, no file exists yet, the probe reports three seconds and the conversion
  succeeds, no environment variable is set.
\<close>

definition example_world :: world where
  "example_world =
     \<lparr>whisper_api = (\<lambda>k path. Inr ''hello''), whisper_calls = 0,
      chat_api = (\<lambda>k prompt. Inr (Some ''hi there'')), chat_calls = 0,
      speech_api = (\<lambda>k text. Inr [73, 68, 51]), speech_calls = 0,
      sessions = [], messages = [],
      db_fault = (\<lambda>k. False), db_ops = 0, clock = 1000,
      id_gen = (\<lambda>k. ''00000000000000000000000'' @ show_nat (k mod 10)), id_count = 0,
      files = Map.empty, stat_error = Map.empty,
      write_fault = (\<lambda>path. False), unlink_fault = (\<lambda>path. False),
      ffprobe = (\<lambda>path. Some (Num 3)), ffmpeg = (\<lambda>path. Some 96000),
      env_MAX_AUDIO_SIZE_MB = None, env_MAX_AUDIO_DURATION_SECONDS = None,
      env_NODE_ENV = None, cwd = ''/app'', random_uuid = ''u1''\<rparr>"

section \<open>Frame of the provider clients\<close>

text \<open>
  What a provider client leaves alone: the stored messages, the database's operation
  count and faults, the clock and the text-generation provider's answers.
\<close>

definition same_store :: "world \<Rightarrow> world \<Rightarrow> bool" where
  "same_store w w' =
     (messages w' = messages w \<and> db_ops w' = db_ops w \<and> db_fault w' = db_fault w \<and>
      clock w' = clock w \<and> chat_api w' = chat_api w)"

text \<open>
  What the database functions and the provider clients leave alone on disk: the files
  and the faults of \<^verbatim>\<open>unlink\<close>.
\<close>

definition same_disk :: "world \<Rightarrow> world \<Rightarrow> bool" where
  "same_disk w w' = (files w' = files w \<and> unlink_fault w' = unlink_fault w)"

section \<open>Properties of the transient-call wrapper\<close>

lemma state_before_Suc:
  "state_before operation (Suc n) s = state_before operation n (snd (operation s))"
  using funpow_swap1 [of "\<lambda>x. snd (operation x)" n s] by (simp add: state_before_def)

lemma client_error_status_iff: "client_error_status st = client_class st"
  by (auto simp: client_error_status_def client_class_def split: option.splits)


lemma retry_loop_exit: "retry_loop operation m (Suc m) (Some e) s tr = (Inl e, s, tr)"
  by (subst retry_loop.simps) simp

lemma retry_loop_v2_exit: "retry_loop_v2 operation m (Suc m) (Some e) s tr = (Inl e, s, tr)"
  by (subst retry_loop_v2.simps) simp

text \<open>
  An operation that throws a non-terminal value in every state: the loop, entered at
  \<open>attempt\<close> with \<open>k\<close> retries left, calls it \<open>k + 1\<close> times, sleeps between the calls
  and raises what the last call threw.
\<close>

lemma retry_loop_always_throws:
  assumes "always_throws (\<lambda>e. \<not> nullish e \<and> \<not> client_error_status (status e)) operation"
  shows "attempt + k = m \<Longrightarrow>
    retry_loop operation m attempt lastError s tr =
      (Inl (as_Error (projl (fst (operation (state_before operation k s))))),
       state_before operation (Suc k) s,
       tr @ concat (replicate k [Invoke, Sleep 500]) @ [Invoke])"
proof (induction k arbitrary: attempt lastError s tr)
  case 0
  obtain e s' where op: "operation s = (Inl e, s')"
    and ne: "\<not> nullish e" "\<not> client_error_status (status e)"
    using assms unfolding always_throws_def by blast
  with 0 show ?case
    by (subst retry_loop.simps) (simp add: state_before_def retry_loop_exit)
next
  case (Suc k)
  obtain e s' where op: "operation s = (Inl e, s')"
    and ne: "\<not> nullish e" "\<not> client_error_status (status e)"
    using assms unfolding always_throws_def by blast
  from Suc.prems have lt: "attempt < m" and nx: "Suc attempt + k = m" by simp_all
  have "retry_loop operation m attempt lastError s tr =
        retry_loop operation m (Suc attempt) (Some (as_Error e)) s' (tr @ [Invoke, Sleep 500])"
    using op ne lt by (subst retry_loop.simps) simp
  also have "\<dots> = (Inl (as_Error (projl (fst (operation (state_before operation k s'))))),
       state_before operation (Suc k) s',
       (tr @ [Invoke, Sleep 500]) @ concat (replicate k [Invoke, Sleep 500]) @ [Invoke])"
    by (rule Suc.IH [OF nx])
  finally show ?case using op by (simp add: state_before_Suc)
qed





text \<open>
  The shape of every run, whatever the operation does: between two consecutive calls
  lies exactly one sleep, and there are at most \<open>maxRetries\<close> of them.
\<close>

lemma retry_loop_trace:
  "attempt + k = m \<Longrightarrow>
     \<exists>n. n \<le> k \<and> snd (snd (retry_loop operation m attempt lastError s tr)) =
       tr @ concat (replicate n [Invoke, Sleep 500]) @ [Invoke]"
proof (induction k arbitrary: attempt lastError s tr)
  case 0
  then show ?case
    by (subst retry_loop.simps) (auto simp: retry_loop_exit split: prod.splits sum.splits)
next
  case (Suc k)
  from Suc.prems have lt: "attempt < m" and nx: "Suc attempt + k = m" by simp_all
  obtain r s' where op: "operation s = (r, s')" by (cases "operation s")
  show ?case
  proof (cases r)
    case (Inr v)
    with op lt have "snd (snd (retry_loop operation m attempt lastError s tr)) =
      tr @ concat (replicate 0 [Invoke, Sleep 500]) @ [Invoke]"
      by (subst retry_loop.simps) simp
    then show ?thesis by blast
  next
    case (Inl e)
    show ?thesis
    proof (cases "nullish e \<or> client_error_status (status e)")
      case True
      with op lt Inl have "snd (snd (retry_loop operation m attempt lastError s tr)) =
        tr @ concat (replicate 0 [Invoke, Sleep 500]) @ [Invoke]"
        by (subst retry_loop.simps) auto
      then show ?thesis by blast
    next
      case False
      with op lt Inl have step: "retry_loop operation m attempt lastError s tr =
        retry_loop operation m (Suc attempt) (Some (as_Error e)) s' (tr @ [Invoke, Sleep 500])"
        by (subst retry_loop.simps) simp
      from Suc.IH [OF nx, of "Some (as_Error e)" s' "tr @ [Invoke, Sleep 500]"]
      obtain n where "n \<le> k" and
        "snd (snd (retry_loop operation m (Suc attempt) (Some (as_Error e)) s'
           (tr @ [Invoke, Sleep 500]))) =
         (tr @ [Invoke, Sleep 500]) @ concat (replicate n [Invoke, Sleep 500]) @ [Invoke]"
        by blast
      with step have "Suc n \<le> Suc k \<and>
        snd (snd (retry_loop operation m attempt lastError s tr)) =
        tr @ concat (replicate (Suc n) [Invoke, Sleep 500]) @ [Invoke]"
        by simp
      then show ?thesis by blast
    qed
  qed
qed

lemma retry_loop_v2_trace:
  "attempt + k = m \<Longrightarrow>
     \<exists>n. attempt \<le> n \<and> n \<le> m \<and>
       snd (snd (retry_loop_v2 operation m attempt lastError s tr)) =
       tr @ concat (map (\<lambda>i. [Invoke, Sleep (2 ^ i * 1000)]) [attempt..<n]) @ [Invoke]"
proof (induction k arbitrary: attempt lastError s tr)
  case 0
  then have "snd (snd (retry_loop_v2 operation m attempt lastError s tr)) =
       tr @ concat (map (\<lambda>i. [Invoke, Sleep (2 ^ i * 1000)]) [attempt..<attempt]) @ [Invoke]"
    by (subst retry_loop_v2.simps) (auto simp: retry_loop_v2_exit split: prod.splits sum.splits)
  with 0 show ?case by auto
next
  case (Suc k)
  from Suc.prems have lt: "attempt < m" and nx: "Suc attempt + k = m" by simp_all
  obtain r s' where op: "operation s = (r, s')" by (cases "operation s")
  show ?case
  proof (cases r)
    case (Inr v)
    with op lt have "snd (snd (retry_loop_v2 operation m attempt lastError s tr)) =
      tr @ concat (map (\<lambda>i. [Invoke, Sleep (2 ^ i * 1000)]) [attempt..<attempt]) @ [Invoke]"
      by (subst retry_loop_v2.simps) simp
    with lt show ?thesis by (intro exI [of _ attempt]) simp
  next
    case (Inl e)
    show ?thesis
    proof (cases "below_500_status (optional_response_status e)")
      case True
      with op lt Inl have "snd (snd (retry_loop_v2 operation m attempt lastError s tr)) =
        tr @ concat (map (\<lambda>i. [Invoke, Sleep (2 ^ i * 1000)]) [attempt..<attempt]) @ [Invoke]"
        by (subst retry_loop_v2.simps) simp
      with lt show ?thesis by (intro exI [of _ attempt]) simp
    next
      case False
      with op lt Inl have step: "retry_loop_v2 operation m attempt lastError s tr =
        retry_loop_v2 operation m (Suc attempt) (Some e) s'
          (tr @ [Invoke, Sleep (2 ^ attempt * 1000)])"
        by (subst retry_loop_v2.simps) simp
      from Suc.IH [OF nx, of "Some e" s' "tr @ [Invoke, Sleep (2 ^ attempt * 1000)]"]
      obtain n where n: "Suc attempt \<le> n" "n \<le> m" and
        "snd (snd (retry_loop_v2 operation m (Suc attempt) (Some e) s'
           (tr @ [Invoke, Sleep (2 ^ attempt * 1000)]))) =
         (tr @ [Invoke, Sleep (2 ^ attempt * 1000)]) @
           concat (map (\<lambda>i. [Invoke, Sleep (2 ^ i * 1000)]) [Suc attempt..<n]) @ [Invoke]"
        by blast
      with step have "attempt \<le> n \<and> n \<le> m \<and>
        snd (snd (retry_loop_v2 operation m attempt lastError s tr)) =
        tr @ concat (map (\<lambda>i. [Invoke, Sleep (2 ^ i * 1000)]) [attempt..<n]) @ [Invoke]"
        by (simp add: upt_conv_Cons)
      then show ?thesis by blast
    qed
  qed
qed




text \<open>
  A thrown \<^verbatim>\<open>undefined\<close> ends the root application's wrapper after one call, with the
  \<^verbatim>\<open>TypeError\<close> of its \<^verbatim>\<open>catch\<close> block; \<^verbatim>\<open>v2\<close> retries it and raises it.
\<close>

lemma retry_thrown_undefined:
  "retryWithBackoff (\<lambda>n::nat. (Inl js_undefined :: js_error + unit, Suc n)) (Some 2) 0 =
     (Inl (property_TypeError js_undefined ''status''), 1, [Invoke]) \<and>
   retryWithBackoff_v2 (\<lambda>n::nat. (Inl js_undefined :: js_error + unit, Suc n)) (Some 2) 0 =
     (Inl js_undefined, 3, [Invoke, Sleep 1000, Invoke, Sleep 2000, Invoke])"
  by (simp add: retryWithBackoff_def retry_loop.simps retryWithBackoff_v2_def
      retry_loop_v2.simps js_undefined_def below_500_status_def optional_response_status_def)

text \<open>
  Each wrapper stops at once on a client-class status in the field it reads: the root
  application's on \<^verbatim>\<open>error.status\<close>, that of \<^verbatim>\<open>v2\<close> on \<^verbatim>\<open>error.response.status\<close>. The
  thrown value is raised as it is, after the one call, whatever \<open>maxRetries\<close> is.
\<close>

lemma retry_terminal_where_read:
  "(operation s = (Inl e, s') \<and> \<not> nullish e \<and> client_class (status e) \<longrightarrow>
      retryWithBackoff operation maxRetries s = (Inl e, s', [Invoke])) \<and>
   (operation s = (Inl e, s') \<and> client_class (optional_response_status e) \<longrightarrow>
      retryWithBackoff_v2 operation maxRetries s = (Inl e, s', [Invoke]))"
proof (intro conjI impI)
  assume h: "operation s = (Inl e, s') \<and> \<not> nullish e \<and> client_class (status e)"
  then have "client_error_status (status e)" by (simp add: client_error_status_iff)
  with h show "retryWithBackoff operation maxRetries s = (Inl e, s', [Invoke])"
    unfolding retryWithBackoff_def by (subst retry_loop.simps) simp
next
  assume h: "operation s = (Inl e, s') \<and> client_class (optional_response_status e)"
  then have "below_500_status (optional_response_status e)"
    by (auto simp: below_500_status_def client_class_def split: option.splits)
  with h show "retryWithBackoff_v2 operation maxRetries s = (Inl e, s', [Invoke])"
    unfolding retryWithBackoff_v2_def by (subst retry_loop_v2.simps) simp
qed

text \<open>
  C4, the code at a failing input. The operation throws, on every call, an \<^verbatim>\<open>Error\<close>
  whose \<^verbatim>\<open>status\<close> is 404, as the errors of the provider SDK carry it. The wrapper of
  \<^verbatim>\<open>v2\<close> reads only \<^verbatim>\<open>error.response.status\<close>, finds none and, with \<open>maxRetries = 2\<close>,
  calls the operation three times, sleeping one and two seconds, before it raises the
  404. The root application's wrapper, which reads \<^verbatim>\<open>error.status\<close>, calls the same
  operation once.
\<close>

theorem retry_v2_retries_client_status:
  "client_class (status ((new_Error ''Not Found'')\<lparr>status := Some 404\<rparr>)) \<and>
   retryWithBackoff_v2
     (\<lambda>n::nat. (Inl ((new_Error ''Not Found'')\<lparr>status := Some 404\<rparr>) :: js_error + unit, Suc n))
     (Some 2) 0 =
     (Inl ((new_Error ''Not Found'')\<lparr>status := Some 404\<rparr>), 3,
      [Invoke, Sleep 1000, Invoke, Sleep 2000, Invoke]) \<and>
   invocations (snd (snd (retryWithBackoff_v2
     (\<lambda>n::nat. (Inl ((new_Error ''Not Found'')\<lparr>status := Some 404\<rparr>) :: js_error + unit, Suc n))
     (Some 2) 0))) = 3 \<and>
   retryWithBackoff
     (\<lambda>n::nat. (Inl ((new_Error ''Not Found'')\<lparr>status := Some 404\<rparr>) :: js_error + unit, Suc n))
     (Some 2) 0 =
     (Inl ((new_Error ''Not Found'')\<lparr>status := Some 404\<rparr>), 1, [Invoke])"
  by (simp add: client_class_def new_Error_def retryWithBackoff_v2_def retry_loop_v2.simps
      below_500_status_def optional_response_status_def invocations_def
      retryWithBackoff_def retry_loop.simps client_error_status_def)

text \<open>
  C5, as amended. In \<^verbatim>\<open>v2\<close> the default retry count is 2 (at most three calls) and
  before the retry that follows call number \<open>i\<close> (from 0) the wrapper sleeps
  \<open>2 ^ i\<close> seconds. In the root application the default retry count is 1 (at most two
  calls) and the wrapper sleeps 500 ms before every retry. In both, a run is calls
  separated by exactly these sleeps, with at most \<open>maxRetries\<close> retries.
\<close>

theorem retry_defaults_and_delays:
  "retryWithBackoff_v2 operation None s = retryWithBackoff_v2 operation (Some 2) s \<and>
   (\<exists>n. n \<le> maxRetries \<and>
      snd (snd (retryWithBackoff_v2 operation (Some maxRetries) s)) =
        concat (map (\<lambda>i. [Invoke, Sleep (2 ^ i * 1000)]) [0..<n]) @ [Invoke]) \<and>
   retryWithBackoff operation None s = retryWithBackoff operation (Some 1) s \<and>
   (\<exists>n. n \<le> maxRetries \<and>
      snd (snd (retryWithBackoff operation (Some maxRetries) s)) =
        concat (replicate n [Invoke, Sleep 500]) @ [Invoke])"
proof (intro conjI)
  show "retryWithBackoff_v2 operation None s = retryWithBackoff_v2 operation (Some 2) s"
    by (simp add: retryWithBackoff_v2_def)
  show "retryWithBackoff operation None s = retryWithBackoff operation (Some 1) s"
    by (simp add: retryWithBackoff_def)
  show "\<exists>n. n \<le> maxRetries \<and>
      snd (snd (retryWithBackoff_v2 operation (Some maxRetries) s)) =
        concat (map (\<lambda>i. [Invoke, Sleep (2 ^ i * 1000)]) [0..<n]) @ [Invoke]"
    using retry_loop_v2_trace [of 0 maxRetries maxRetries operation None s "[]"]
    by (auto simp: retryWithBackoff_v2_def)
  show "\<exists>n. n \<le> maxRetries \<and>
      snd (snd (retryWithBackoff operation (Some maxRetries) s)) =
        concat (replicate n [Invoke, Sleep 500]) @ [Invoke]"
    using retry_loop_trace [of 0 maxRetries maxRetries operation None s "[]"]
    by (auto simp: retryWithBackoff_def)
qed

text \<open>
  Counterexample to C5 as stated: the root application's wrapper, called without
  \<open>maxRetries\<close> on an operation that always throws a network error, calls it twice, not
  three times, and sleeps 500 ms before the retry, not one second; with two retries
  both of its sleeps are 500 ms, not one and two seconds.
\<close>

theorem retry_defaults_and_delays_counterexample:
  "retryWithBackoff (\<lambda>n::nat. (Inl (new_Error ''ECONNRESET'') :: js_error + unit, Suc n))
     None 0 =
     (Inl (new_Error ''ECONNRESET''), 2, [Invoke, Sleep 500, Invoke]) \<and>
   sleeps (snd (snd (retryWithBackoff
     (\<lambda>n::nat. (Inl (new_Error ''ECONNRESET'') :: js_error + unit, Suc n)) (Some 2) 0))) =
     [500, 500] \<and>
   sleeps (snd (snd (retryWithBackoff
     (\<lambda>n::nat. (Inl (new_Error ''ECONNRESET'') :: js_error + unit, Suc n)) (Some 2) 0))) \<noteq>
     [2 ^ 0 * 1000, 2 ^ 1 * 1000]"
  by (simp add: retryWithBackoff_def retry_loop.simps new_Error_def client_error_status_def
      as_Error_def)

section \<open>Properties of the speech synthesizer under the wrapper\<close>

lemma state_before_unchanged:
  "(\<And>x. snd (operation x) = x) \<Longrightarrow> state_before operation k s = s"
  by (induction k) (simp_all add: state_before_def)

lemma js_length_replicate_ascii: "js_length (replicate n (CHR ''a'')) = n"
  by (induction n) (simp_all add: js_length_def utf16_units_def)

text \<open>The error a text of more than 4096 UTF-16 code units is rejected with: it is an
  \<^verbatim>\<open>Error\<close> without a status, thrown before the provider is called.\<close>

lemma synthesizeSpeech_too_long:
  assumes "js_length text > 4096"
  shows "\<exists>e. \<not> nullish e \<and> status e = None \<and> instanceof_Error e \<and>
    (\<forall>w. synthesizeSpeech text w = (Inl e, w))"
proof (cases "js_length (trim text) = 0")
  case True
  then have "\<forall>w. synthesizeSpeech text w =
    (Inl (new_Error (''TTS failed: '' @ ''Text is required for TTS'')), w)"
    by (simp add: synthesizeSpeech_def)
  then show ?thesis by (intro exI conjI, auto simp: new_Error_def)
next
  case False
  with assms have "\<forall>w. synthesizeSpeech text w =
    (Inl (new_Error (''TTS failed: '' @ ''Text exceeds 4096 character limit ('' @
                show_nat (js_length text) @ '' chars)'')), w)"
    by (auto simp: synthesizeSpeech_def js_length_def)
  then show ?thesis by (intro exI conjI, auto simp: new_Error_def)
qed

text \<open>
  Under the wrapper such a text is retried like a transient failure: the operation is
  called \<open>maxRetries + 1\<close> times, with a sleep of 500 ms before each retry, the world
  (which counts the provider's calls) is unchanged, and the error is then raised.
\<close>

lemma synthesizeSpeech_too_long_run:
  assumes "js_length text > 4096"
  shows "\<exists>e. status e = None \<and> synthesizeSpeech text w = (Inl e, w) \<and>
    retryWithBackoff (synthesizeSpeech text) (Some maxRetries) w =
      (Inl e, w, concat (replicate maxRetries [Invoke, Sleep 500]) @ [Invoke])"
proof -
  from synthesizeSpeech_too_long [OF assms] obtain e where
    e: "\<not> nullish e" "status e = None" "instanceof_Error e" and
    op: "\<And>w. synthesizeSpeech text w = (Inl e, w)"
    by blast
  have a: "always_throws (\<lambda>e. \<not> nullish e \<and> \<not> client_error_status (status e))
    (synthesizeSpeech text)"
    using e op by (auto simp: always_throws_def client_error_status_def)
  have st: "\<And>k. state_before (synthesizeSpeech text) k w = w"
    by (rule state_before_unchanged) (simp add: op)
  have "retryWithBackoff (synthesizeSpeech text) (Some maxRetries) w =
      (Inl e, w, concat (replicate maxRetries [Invoke, Sleep 500]) @ [Invoke])"
    unfolding retryWithBackoff_def
    using retry_loop_always_throws [OF a, of 0 maxRetries maxRetries None w "[]"] e
    by (simp add: st op as_Error_def)
  with e op show ?thesis by blast
qed

text \<open>
  C8, the code at a failing input. The text is 4097 letters long. \<^verbatim>\<open>synthesizeSpeech\<close>
  rejects it without calling the provider, but the wrapper, called as
  \<^verbatim>\<open>handleVoiceConversation\<close> calls it (\<open>maxRetries = 2\<close>), invokes the operation three
  times, not once, and sleeps 500 ms before each retry: the rejection is retried like
  a transient failure. The world, with the provider's call count, is unchanged.
\<close>

theorem synthesizeSpeech_too_long_is_retried:
  "js_length (replicate 4097 (CHR ''a'')) = 4097 \<and>
   snd (snd (retryWithBackoff (synthesizeSpeech (replicate 4097 (CHR ''a'')))
     (Some 2) example_world)) = [Invoke, Sleep 500, Invoke, Sleep 500, Invoke] \<and>
   invocations (snd (snd (retryWithBackoff (synthesizeSpeech (replicate 4097 (CHR ''a'')))
     (Some 2) example_world))) = 3 \<and>
   fst (snd (retryWithBackoff (synthesizeSpeech (replicate 4097 (CHR ''a'')))
     (Some 2) example_world)) = example_world \<and>
   speech_calls (fst (snd (retryWithBackoff (synthesizeSpeech (replicate 4097 (CHR ''a'')))
     (Some 2) example_world))) = 0"
proof -
  have "js_length (replicate 4097 (CHR ''a'')) > 4096"
    by (simp add: js_length_replicate_ascii)
  from synthesizeSpeech_too_long_run [OF this, of example_world 2]
  show ?thesis
    by (auto simp: invocations_def numeral_2_eq_2 js_length_replicate_ascii)
       (simp add: example_world_def)
qed

section \<open>Properties of audio validation\<close>

text \<open>
  C10. The root application's \<^verbatim>\<open>validateAudio\<close> answers a result record for every path
  in every world (missing file, failing \<^verbatim>\<open>statSync\<close>, failing probe, oversized or
  overlong audio) and never throws; an invalid result carries a reason and a valid one
  carries none.
\<close>

theorem validateAudio_total:
  "\<exists>r. validateAudio w filePath = Inr r \<and>
       (\<not> valid r \<longrightarrow> (\<exists>reason. error r = Some reason)) \<and>
       (valid r \<longrightarrow> error r = None)"
  by (auto simp: validateAudio_def validateAudio_try_def invalid_audio_def
      split: option.splits sum.splits)

text \<open>
  Witness of C10: a file on which \<^verbatim>\<open>statSync\<close> throws is answered as invalid, with the
  exception's message as the reason; a missing file likewise.
\<close>

theorem validateAudio_total_witness:
  "validateAudio
     (example_world\<lparr>files := [''/app/uploads/a.wav'' \<mapsto> 1000],
        stat_error := [''/app/uploads/a.wav'' \<mapsto> new_Error ''EACCES: permission denied'']\<rparr>)
     ''/app/uploads/a.wav'' =
     Inr \<lparr>valid = False, duration = None, size_bytes = None,
          error = Some ''EACCES: permission denied''\<rparr> \<and>
   validateAudio example_world ''/app/uploads/a.wav'' =
     Inr \<lparr>valid = False, duration = None, size_bytes = None,
          error = Some ''Audio file not found''\<rparr>"
  using
    validateAudio_total [of "example_world\<lparr>files := [''/app/uploads/a.wav'' \<mapsto> 1000],
        stat_error := [''/app/uploads/a.wav'' \<mapsto> new_Error ''EACCES: permission denied'']\<rparr>"
      "''/app/uploads/a.wav''"]
    validateAudio_total [of example_world "''/app/uploads/a.wav''"]
  by (simp add: validateAudio_def validateAudio_try_def invalid_audio_def example_world_def
      message_of_def new_Error_def)

text \<open>
  C7, as amended. On an existing file within the size limit on which the probe fails,
  \<^verbatim>\<open>validateAudio\<close> of \<^verbatim>\<open>v2\<close> answers \<^verbatim>\<open>valid: false\<close> with the reason
  \<^verbatim>\<open>Invalid audio file or format not supported\<close>, while \<^verbatim>\<open>validateAudio\<close> of the root
  application skips the duration check and answers \<^verbatim>\<open>valid: true\<close> with the size and no
  duration. Neither throws.
\<close>

theorem validateAudio_probe_failure:
  "files w filePath = Some sz \<and> stat_error w filePath = None \<and> ffprobe w filePath = None \<longrightarrow>
     (sz \<le> 25 * 1024 * 1024 \<longrightarrow>
        validateAudio_v2 w filePath =
          Inr \<lparr>valid = False, duration = None, size_bytes = None,
               error = Some ''Invalid audio file or format not supported''\<rparr>) \<and>
     (sz \<le> maxSize w \<longrightarrow>
        validateAudio w filePath =
          Inr \<lparr>valid = True, duration = None, size_bytes = Some sz, error = None\<rparr>)"
  by (simp add: validateAudio_v2_def validateAudio_def validateAudio_try_def invalid_audio_def)

text \<open>
  Witness of C7: a file of 1000 bytes on which the probe fails, in the example world.
\<close>

theorem validateAudio_probe_failure_witness:
  "validateAudio_v2
     (example_world\<lparr>files := [''/app/uploads/a.wav'' \<mapsto> 1000], ffprobe := (\<lambda>path. None)\<rparr>)
     ''/app/uploads/a.wav'' =
     Inr \<lparr>valid = False, duration = None, size_bytes = None,
          error = Some ''Invalid audio file or format not supported''\<rparr> \<and>
   valid (projr (validateAudio
     (example_world\<lparr>files := [''/app/uploads/a.wav'' \<mapsto> 1000], ffprobe := (\<lambda>path. None)\<rparr>)
     ''/app/uploads/a.wav''))"
  using validateAudio_probe_failure
    [of "example_world\<lparr>files := [''/app/uploads/a.wav'' \<mapsto> 1000], ffprobe := (\<lambda>path. None)\<rparr>"
      "''/app/uploads/a.wav''" 1000]
  by (simp add: example_world_def maxSize_def)

text \<open>
  Counterexample to C7 as stated: in the root application the probe fails on a file of
  1000 bytes and the result is \<^verbatim>\<open>valid: true\<close>, without a reason.
\<close>

theorem validateAudio_probe_failure_counterexample:
  "ffprobe
     (example_world\<lparr>files := [''/app/uploads/a.wav'' \<mapsto> 1000], ffprobe := (\<lambda>path. None)\<rparr>)
     ''/app/uploads/a.wav'' = None \<and>
   validateAudio
     (example_world\<lparr>files := [''/app/uploads/a.wav'' \<mapsto> 1000], ffprobe := (\<lambda>path. None)\<rparr>)
     ''/app/uploads/a.wav'' =
     Inr \<lparr>valid = True, duration = None, size_bytes = Some 1000, error = None\<rparr>"
  by (simp add: validateAudio_def validateAudio_try_def example_world_def maxSize_def)

section \<open>Properties of the context loader and the session resolver\<close>

lemma mongo_limit_length: "0 < n \<Longrightarrow> length (mongo_limit n xs) \<le> n"
  by (simp add: mongo_limit_def)

lemma mongo_limit_sorted:
  "sorted (map f xs) \<Longrightarrow> sorted (map f (mongo_limit n xs))"
  by (simp add: mongo_limit_def take_map [symmetric])

text \<open>
  What the context loader does answer, when the database is reachable and the session
  id is an ObjectId: a prefix of the session's messages in ascending order of creation
  time, so at most \<open>limit\<close> of them for a positive limit, the oldest first, and nothing
  for a session without messages. \<^verbatim>\<open>v2\<close> answers the same.
\<close>

lemma getConversationHistory_prefix_of_ascending:
  assumes "\<not> db_fault w (db_ops w)" and "ObjectId sid = Some oid"
  shows "\<exists>ms. fst (getConversationHistory sid limit w) =
             Inr (map (\<lambda>msg. (role msg, content msg)) ms) \<and>
           fst (getConversationHistory_v2 sid limit w) =
             Inr (map (\<lambda>msg. (role msg, content msg)) ms) \<and>
           ms = mongo_limit (case limit of None \<Rightarrow> 20 | Some n \<Rightarrow> n)
                  (sort_key message_createdAt
                     (filter (\<lambda>msg. sessionId msg = oid) (messages w))) \<and>
           sorted (map message_createdAt ms) \<and>
           set ms \<subseteq> {msg \<in> set (messages w). sessionId msg = oid}"
proof -
  let ?all = "sort_key message_createdAt (filter (\<lambda>msg. sessionId msg = oid) (messages w))"
  let ?ms = "mongo_limit (case limit of None \<Rightarrow> 20 | Some n \<Rightarrow> n) ?all"
  have "sorted (map message_createdAt ?all)" by simp
  then have s: "sorted (map message_createdAt ?ms)" by (rule mongo_limit_sorted)
  have "set ?ms \<subseteq> set ?all"
    by (auto simp: mongo_limit_def dest: in_set_takeD)
  then have sub: "set ?ms \<subseteq> {msg \<in> set (messages w). sessionId msg = oid}" by auto
  from assms s sub show ?thesis
    by (intro exI [of _ ?ms])
       (simp add: getConversationHistory_def getConversationHistory_v2_def db_begin_def)
qed

lemma getConversationHistory_empty_session:
  assumes "\<not> db_fault w (db_ops w)" and "ObjectId sid = Some oid"
    and "filter (\<lambda>msg. sessionId msg = oid) (messages w) = []"
  shows "fst (getConversationHistory sid limit w) = Inr [] \<and>
         fst (getConversationHistory_v2 sid limit w) = Inr []"
  using assms
  by (simp add: getConversationHistory_def getConversationHistory_v2_def db_begin_def
      mongo_limit_def)

text \<open>
  What the session resolver does on a session id that is an ObjectId, when the database
  is reachable: without an owned session of that id it creates one for the caller and
  answers the new id; with one it sets that session's \<^verbatim>\<open>lastActivityAt\<close> to the current
  time and answers the id it was given. \<^verbatim>\<open>v2\<close> does the same, and creates a session
  also for an id that is no ObjectId.
\<close>

lemma ObjectId_nonempty: "ObjectId sid = Some oid \<Longrightarrow> truthy (Some sid) = Some sid"
  by (auto simp: ObjectId_def truthy_def split: if_splits)

lemma getOrCreateSession_unknown_id:
  assumes "\<not> db_fault w (db_ops w)" and "\<not> db_fault w (db_ops w + 1)"
    and "ObjectId sid = Some oid"
    and "find (\<lambda>s. session_id s = oid \<and> userId s = uid) (sessions w) = None"
  shows "fst (getOrCreateSession uid (Some sid) w) = Inr (id_gen w (id_count w)) \<and>
         sessions (snd (getOrCreateSession uid (Some sid) w)) = sessions w @
           [\<lparr>session_id = id_gen w (id_count w), userId = uid, createdAt = clock w + 2,
             lastActivityAt = clock w + 2\<rparr>] \<and>
         fst (getOrCreateSession_v2 uid (Some sid) w) = Inr (id_gen w (id_count w)) \<and>
         sessions (snd (getOrCreateSession_v2 uid (Some sid) w)) = sessions w @
           [\<lparr>session_id = id_gen w (id_count w), userId = uid, createdAt = clock w + 2,
             lastActivityAt = clock w + 2\<rparr>]"
  using assms ObjectId_nonempty [OF assms(3)]
  by (simp add: getOrCreateSession_def getOrCreateSession_v2_def getSession_def
      getSession_v2_def createSession_def createSession_v2_def db_begin_def Let_def)

lemma getOrCreateSession_v2_malformed_id:
  assumes "\<not> db_fault w (db_ops w)" and "\<not> db_fault w (db_ops w + 1)"
    and "ObjectId sid = None" and "sid \<noteq> []"
  shows "fst (getOrCreateSession_v2 uid (Some sid) w) = Inr (id_gen w (id_count w)) \<and>
         sessions (snd (getOrCreateSession_v2 uid (Some sid) w)) = sessions w @
           [\<lparr>session_id = id_gen w (id_count w), userId = uid, createdAt = clock w + 2,
             lastActivityAt = clock w + 2\<rparr>]"
  using assms
  by (simp add: getOrCreateSession_v2_def getSession_v2_def createSession_v2_def
      db_begin_def Let_def truthy_def)

lemma getOrCreateSession_owned_id:
  assumes "\<not> db_fault w (db_ops w)" and "\<not> db_fault w (db_ops w + 1)"
    and "ObjectId sid = Some oid"
    and "find (\<lambda>s. session_id s = oid \<and> userId s = uid) (sessions w) = Some session"
  shows "fst (getOrCreateSession uid (Some sid) w) = Inr sid \<and>
         sessions (snd (getOrCreateSession uid (Some sid) w)) =
           update_first (\<lambda>s. session_id s = oid) (\<lambda>s. s\<lparr>lastActivityAt := clock w + 2\<rparr>)
             (sessions w) \<and>
         fst (getOrCreateSession_v2 uid (Some sid) w) = Inr sid \<and>
         sessions (snd (getOrCreateSession_v2 uid (Some sid) w)) =
           update_first (\<lambda>s. session_id s = oid) (\<lambda>s. s\<lparr>lastActivityAt := clock w + 2\<rparr>)
             (sessions w)"
proof -
  from assms(4) have "session_id session = oid"
    by (auto simp: find_Some_iff)
  with assms ObjectId_nonempty [OF assms(3)] show ?thesis
    by (simp add: getOrCreateSession_def getOrCreateSession_v2_def getSession_def
        getSession_v2_def findByIdAndUpdate_lastActivityAt_def updateOne_lastActivityAt_def
        db_begin_def Let_def)
qed

text \<open>
  C6, the code at a failing input. A session holds three messages, written at times
  1, 2 and 3. With \<open>limit = 2\<close> both \<^verbatim>\<open>getConversationHistory\<close> functions sort ascending
  and then cut, so they answer the two oldest messages, \<open>one\<close> and \<open>two\<close>; the two most
  recent messages are \<open>two\<close> and \<open>three\<close>.
\<close>

theorem getConversationHistory_returns_oldest:
  "fst (getConversationHistory ''0123456789abcdef01234567'' (Some 2)
     (example_world\<lparr>messages :=
        [\<lparr>sessionId = ''0123456789abcdef01234567'', role = User, content = ''one'',
           message_createdAt = 1\<rparr>,
         \<lparr>sessionId = ''0123456789abcdef01234567'', role = Assistant, content = ''two'',
           message_createdAt = 2\<rparr>,
         \<lparr>sessionId = ''0123456789abcdef01234567'', role = User, content = ''three'',
           message_createdAt = 3\<rparr>]\<rparr>)) =
     Inr [(User, ''one''), (Assistant, ''two'')] \<and>
   fst (getConversationHistory_v2 ''0123456789abcdef01234567'' (Some 2)
     (example_world\<lparr>messages :=
        [\<lparr>sessionId = ''0123456789abcdef01234567'', role = User, content = ''one'',
           message_createdAt = 1\<rparr>,
         \<lparr>sessionId = ''0123456789abcdef01234567'', role = Assistant, content = ''two'',
           message_createdAt = 2\<rparr>,
         \<lparr>sessionId = ''0123456789abcdef01234567'', role = User, content = ''three'',
           message_createdAt = 3\<rparr>]\<rparr>)) =
     Inr [(User, ''one''), (Assistant, ''two'')] \<and>
   [(User, ''one''), (Assistant, ''two'')] \<noteq> [(Assistant, ''two''), (User, ''three'')]"
  by (simp add: getConversationHistory_def getConversationHistory_v2_def db_begin_def
      example_world_def ObjectId_def is_hex_digit_def hex_lower_def mongo_limit_def)

text \<open>
  C9, the code at a failing input. The caller supplies the malformed session id
  \<open>not-an-object-id\<close>. In the root application the lookup's cast fails and
  \<^verbatim>\<open>getOrCreateSession\<close> throws that error; no session is created. \<^verbatim>\<open>v2\<close>, which catches
  the failure of \<^verbatim>\<open>new ObjectId\<close>, creates a session of the caller and answers its id.
\<close>

theorem getOrCreateSession_malformed_id:
  "fst (getOrCreateSession ''0123456789abcdef01234567'' (Some ''not-an-object-id'')
     example_world) = Inl (CastError ''_id'') \<and>
   sessions (snd (getOrCreateSession ''0123456789abcdef01234567'' (Some ''not-an-object-id'')
     example_world)) = [] \<and>
   fst (getOrCreateSession_v2 ''0123456789abcdef01234567'' (Some ''not-an-object-id'')
     example_world) = Inr ''000000000000000000000000'' \<and>
   map (\<lambda>s. (session_id s, userId s))
     (sessions (snd (getOrCreateSession_v2 ''0123456789abcdef01234567''
        (Some ''not-an-object-id'') example_world))) =
     [(''000000000000000000000000'', ''0123456789abcdef01234567'')]"
  by (simp add: getOrCreateSession_def getOrCreateSession_v2_def getSession_def
      getSession_v2_def createSession_v2_def truthy_def db_begin_def example_world_def
      ObjectId_def show_nat.simps Let_def)

section \<open>Properties of the pipeline: persistence of a turn\<close>

lemma same_store_refl: "same_store w w"
  by (simp add: same_store_def)

lemma same_store_trans: "same_store a b \<Longrightarrow> same_store b c \<Longrightarrow> same_store a c"
  by (simp add: same_store_def)

lemma transcribeAudio_frame: "same_store s (snd (transcribeAudio path s))"
  by (simp add: same_store_def transcribeAudio_def Let_def split: sum.splits)

lemma generateResponse_frame: "same_store s (snd (generateResponse t h s))"
  by (simp add: same_store_def generateResponse_def Let_def split: sum.splits option.splits)

lemma synthesizeSpeech_frame: "same_store s (snd (synthesizeSpeech t s))"
  by (simp add: same_store_def synthesizeSpeech_def Let_def split: sum.splits)

text \<open>An invariant of the operation's states is an invariant of the wrapper's run, and
  a value the wrapper returns was returned by a call of the operation in such a state.\<close>

lemma retry_loop_invariant:
  assumes step: "\<And>x. I x \<Longrightarrow> I (snd (operation x))"
  shows "attempt + k = m \<Longrightarrow> I s \<Longrightarrow>
    I (fst (snd (retry_loop operation m attempt lastError s tr))) \<and>
    (\<forall>v. fst (retry_loop operation m attempt lastError s tr) = Inr v \<longrightarrow>
       (\<exists>x. I x \<and> fst (operation x) = Inr v))"
proof (induction k arbitrary: attempt lastError s tr)
  case 0
  obtain r s' where op: "operation s = (r, s')" by (cases "operation s")
  from step [OF "0.prems"(2)] op have I': "I s'" by simp
  from 0 op I' show ?case
    by (subst (1 2) retry_loop.simps)
       (cases r; auto simp: retry_loop_exit intro: exI [of _ s])
next
  case (Suc k)
  from Suc.prems have lt: "attempt < m" and nx: "Suc attempt + k = m" by simp_all
  obtain r s' where op: "operation s = (r, s')" by (cases "operation s")
  from step [OF Suc.prems(2)] op have I': "I s'" by simp
  show ?case
  proof (cases r)
    case (Inr v)
    with op lt have "retry_loop operation m attempt lastError s tr = (Inr v, s', tr @ [Invoke])"
      by (subst retry_loop.simps) simp
    with I' Suc.prems(2) op Inr show ?thesis by (auto intro: exI [of _ s])
  next
    case (Inl e)
    show ?thesis
    proof (cases "nullish e \<or> client_error_status (status e)")
      case True
      with op lt Inl have "\<exists>x. retry_loop operation m attempt lastError s tr =
          (Inl x, s', tr @ [Invoke])"
        by (subst retry_loop.simps) auto
      with I' show ?thesis by auto
    next
      case False
      with op lt Inl have "retry_loop operation m attempt lastError s tr =
        retry_loop operation m (Suc attempt) (Some (as_Error e)) s' (tr @ [Invoke, Sleep 500])"
        by (subst retry_loop.simps) simp
      with Suc.IH [OF nx I'] show ?thesis by simp
    qed
  qed
qed

lemma retryWithBackoff_invariant:
  assumes "\<And>x. I x \<Longrightarrow> I (snd (operation x))" and "I s"
    and "retryWithBackoff operation maxRetries s = (r, s', tr)"
  shows "I s' \<and> (\<forall>v. r = Inr v \<longrightarrow> (\<exists>x. I x \<and> fst (operation x) = Inr v))"
  using retry_loop_invariant [where I = I and operation = operation, OF assms(1),
      of 0 "case maxRetries of None \<Rightarrow> 1 | Some m \<Rightarrow> m" _ s None "[]"] assms(2,3)
  by (simp add: retryWithBackoff_def)

lemma retryWithBackoff_same_store:
  assumes "\<And>x. same_store x (snd (operation x))"
    and "retryWithBackoff operation maxRetries s = (r, s', tr)"
  shows "same_store s s'"
  using retryWithBackoff_invariant [where I = "same_store s", OF _ same_store_refl assms(2)]
    assms(1) same_store_trans by blast

lemma generateResponse_nonempty: "fst (generateResponse t h x) = Inr v \<Longrightarrow> v \<noteq> []"
  by (auto simp: generateResponse_def Let_def split: sum.splits option.splits if_splits)

lemma generateResponse_fails:
  assumes "\<forall>k prompt. isl (chat_api x k prompt)"
  shows "isl (fst (generateResponse t h x))"
proof -
  have "isl (chat_api x (chat_calls x)
          ([(System, system_prompt)] @ slice_last 10 h @ [(User, t)]))"
    using assms by blast
  then show ?thesis
    by (auto simp: generateResponse_def Let_def isl_def split: sum.splits option.splits)
qed

lemma getConversationHistory_frame:
  "getConversationHistory sid limit s = (r, s') \<Longrightarrow>
     messages s' = messages s \<and> db_ops s' = db_ops s + 1 \<and> db_fault s' = db_fault s \<and>
     chat_api s' = chat_api s"
  by (auto simp: getConversationHistory_def db_begin_def
      split: if_splits option.splits bool.splits)

lemma saveMessage_cases:
  "saveMessage sid r c s = (res, s') \<Longrightarrow>
     db_ops s' = db_ops s + 1 \<and> db_fault s' = db_fault s \<and>
     ((\<exists>e. res = Inl e \<and> messages s' = messages s \<and>
          (db_fault s (db_ops s) \<or> ObjectId sid = None \<or> c = [])) \<or>
      (res = Inr () \<and>
         (\<exists>oid. ObjectId sid = Some oid \<and>
            messages s' = messages s @
              [\<lparr>sessionId = oid, role = r, content = c,
                message_createdAt = clock s + 1\<rparr>])))"
  by (auto simp: saveMessage_def db_begin_def split: if_splits option.splits bool.splits)

text \<open>The outcomes of \<^verbatim>\<open>handleVoiceConversation\<close>, by the step that ends it.\<close>

lemma handleVoiceConversation_outcomes:
  assumes run: "handleVoiceConversation params w = (r, w')"
  shows "(\<exists>e. r = Inl e \<and> messages w' = messages w) \<or>
    (\<exists>e m. r = Inl e \<and> db_fault w (db_ops w + 2) \<and> role m = User \<and>
       (\<exists>k prompt a. chat_api w k prompt = Inr (Some a)) \<and>
       messages w' = messages w @ [m]) \<or>
    (\<exists>res oid t1 t2. r = Inr res \<and> ObjectId (param_sessionId params) = Some oid \<and>
       (\<exists>k prompt. chat_api w k prompt = Inr (Some (response res))) \<and>
       messages w' = messages w @
         [\<lparr>sessionId = oid, role = User, content = transcript res, message_createdAt = t1\<rparr>,
          \<lparr>sessionId = oid, role = Assistant, content = response res,
            message_createdAt = t2\<rparr>])"
proof -
  let ?sid = "param_sessionId params"
  obtain r1 w1 tr1 where R1:
    "retryWithBackoff (transcribeAudio (param_audioFilePath params)) (Some 2) w = (r1, w1, tr1)"
    by (metis prod_cases3)
  have F1: "same_store w w1"
    by (rule retryWithBackoff_same_store [OF transcribeAudio_frame R1])
  show ?thesis
  proof (cases r1)
    case (Inl e)
    with R1 run F1 show ?thesis
      by (auto simp: handleVoiceConversation_def same_store_def)
  next
    case t: (Inr t)
    show ?thesis
    proof (cases "t = [] \<or> js_length (trim t) = 0")
      case True
      with R1 t run F1 show ?thesis
        by (auto simp: handleVoiceConversation_def same_store_def)
    next
      case speech: False
      obtain rh w2 where H: "getConversationHistory ?sid (Some 20) w1 = (rh, w2)"
        by (cases "getConversationHistory ?sid (Some 20) w1")
      note F2 = getConversationHistory_frame [OF H]
      show ?thesis
      proof (cases rh)
        case (Inl e)
        with R1 t speech H run F1 F2 show ?thesis
          by (auto simp: handleVoiceConversation_def same_store_def)
      next
        case h: (Inr h)
        obtain r3 w3 tr3 where R3:
          "retryWithBackoff (generateResponse t h) (Some 2) w2 = (r3, w3, tr3)"
          by (metis prod_cases3)
        have F3: "same_store w2 w3"
          by (rule retryWithBackoff_same_store [OF generateResponse_frame R3])
        show ?thesis
        proof (cases r3)
          case (Inl e)
          with R1 t speech H h R3 run F1 F2 F3 show ?thesis
            by (auto simp: handleVoiceConversation_def same_store_def)
        next
          case a: (Inr a)
          from retryWithBackoff_invariant
            [where I = "\<lambda>x. chat_api x = chat_api w2", OF _ _ R3] a
          obtain x where x: "chat_api x = chat_api w2" "fst (generateResponse t h x) = Inr a"
            using generateResponse_frame [of _ t h] by (auto simp: same_store_def)
          then have a_ne: "a \<noteq> []" by (auto dest: generateResponse_nonempty)
          from x F1 F2 have a_src: "\<exists>k prompt. chat_api w k prompt = Inr (Some a)"
            by (auto simp: generateResponse_def Let_def same_store_def
                split: sum.splits option.splits if_splits)
          obtain r4 w4 tr4 where R4:
            "retryWithBackoff (synthesizeSpeech a) (Some 2) w3 = (r4, w4, tr4)"
            by (metis prod_cases3)
          have F4: "same_store w3 w4"
            by (rule retryWithBackoff_same_store [OF synthesizeSpeech_frame R4])
          show ?thesis
          proof (cases r4)
            case (Inl e)
            with R1 t speech H h R3 a R4 run F1 F2 F3 F4 show ?thesis
              by (auto simp: handleVoiceConversation_def same_store_def)
          next
            case au: (Inr au)
            obtain r5 w5 where S1: "saveMessage ?sid User t w4 = (r5, w5)"
              by (cases "saveMessage ?sid User t w4")
            note C1 = saveMessage_cases [OF S1]
            have base: "messages w4 = messages w" "db_ops w4 = db_ops w + 1"
              "db_fault w4 = db_fault w"
              using F1 F2 F3 F4 by (simp_all add: same_store_def)
            show ?thesis
            proof (cases r5)
              case (Inl e)
              with R1 t speech H h R3 a R4 au S1 run C1 base show ?thesis
                by (auto simp: handleVoiceConversation_def)
            next
              case u: (Inr u)
              obtain r6 w6 where S2: "saveMessage ?sid Assistant a w5 = (r6, w6)"
                by (cases "saveMessage ?sid Assistant a w5")
              note C2 = saveMessage_cases [OF S2]
              from C1 u obtain oid where oid: "ObjectId ?sid = Some oid" and
                m5: "messages w5 = messages w4 @
                  [\<lparr>sessionId = oid, role = User, content = t,
                    message_createdAt = clock w4 + 1\<rparr>]"
                by auto
              from C1 base have ops5: "db_ops w5 = db_ops w + 2" "db_fault w5 = db_fault w"
                by simp_all
              show ?thesis
              proof (cases r6)
                case (Inl e)
                with C2 oid a_ne ops5 have "db_fault w (db_ops w + 2)"
                  and "messages w6 = messages w5"
                  by auto
                moreover from R1 t speech H h R3 a R4 au S1 u S2 Inl run
                have "r = Inl e" "w' = w6"
                  by (simp_all add: handleVoiceConversation_def)
                ultimately show ?thesis using m5 base a_src
                  by (intro disjI2 disjI1 exI [of _ e]
                      exI [of _ "\<lparr>sessionId = oid, role = User, content = t,
                        message_createdAt = clock w4 + 1\<rparr>"]) auto
              next
                case (Inr u')
                with C2 oid have m6: "messages w6 = messages w5 @
                  [\<lparr>sessionId = oid, role = Assistant, content = a,
                    message_createdAt = clock w5 + 1\<rparr>]"
                  by auto
                from R1 t speech H h R3 a R4 au S1 u S2 Inr run
                have "r = Inr \<lparr>audio = au, transcript = t, response = a\<rparr>" "w' = w6"
                  by (simp_all add: handleVoiceConversation_def)
                with m5 m6 base oid a_src show ?thesis
                  by (intro disjI2) auto
              qed
            qed
          qed
        qed
      qed
    qed
  qed
qed

text \<open>
  C2, as amended. When \<^verbatim>\<open>handleVoiceConversation\<close> returns, it has appended exactly the
  user message and then the assistant message of the turn. When it throws, either no
  message of the turn is persisted, or the second save failed on a database fault and
  the user message alone is persisted: the two saves are separate inserts. An assistant
  message is never persisted without the user message before it. When the
  text-generation provider fails on every call, the invocation throws and no message is
  persisted.
\<close>

theorem turn_persistence:
  "handleVoiceConversation params w = (r, w') \<longrightarrow>
     (\<forall>res. r = Inr res \<longrightarrow>
        (\<exists>oid t1 t2. ObjectId (param_sessionId params) = Some oid \<and>
           messages w' = messages w @
             [\<lparr>sessionId = oid, role = User, content = transcript res,
               message_createdAt = t1\<rparr>,
              \<lparr>sessionId = oid, role = Assistant, content = response res,
               message_createdAt = t2\<rparr>])) \<and>
     (\<forall>e. r = Inl e \<longrightarrow>
        messages w' = messages w \<or>
        (db_fault w (db_ops w + 2) \<and>
         (\<exists>m. role m = User \<and> messages w' = messages w @ [m]))) \<and>
     ((\<forall>k prompt. isl (chat_api w k prompt)) \<longrightarrow> isl r \<and> messages w' = messages w)"
proof
  assume run: "handleVoiceConversation params w = (r, w')"
  note out = handleVoiceConversation_outcomes [OF run]
  have A: "\<forall>res. r = Inr res \<longrightarrow>
        (\<exists>oid t1 t2. ObjectId (param_sessionId params) = Some oid \<and>
           messages w' = messages w @
             [\<lparr>sessionId = oid, role = User, content = transcript res,
               message_createdAt = t1\<rparr>,
              \<lparr>sessionId = oid, role = Assistant, content = response res,
               message_createdAt = t2\<rparr>])"
    using out by auto
  have B: "\<forall>e. r = Inl e \<longrightarrow>
        messages w' = messages w \<or>
        (db_fault w (db_ops w + 2) \<and>
         (\<exists>m. role m = User \<and> messages w' = messages w @ [m]))"
    using out by auto
  have C: "(\<forall>k prompt. isl (chat_api w k prompt)) \<longrightarrow> isl r \<and> messages w' = messages w"
  proof
    assume fails: "\<forall>k prompt. isl (chat_api w k prompt)"
    have "\<not> (\<exists>k prompt a. chat_api w k prompt = Inr (Some a))"
    proof
      assume "\<exists>k prompt a. chat_api w k prompt = Inr (Some a)"
      then obtain k prompt a where "chat_api w k prompt = Inr (Some a)" by blast
      moreover from fails have "isl (chat_api w k prompt)" by blast
      ultimately show False by simp
    qed
    with out show "isl r \<and> messages w' = messages w" by auto
  qed
  from A B C show "(\<forall>res. r = Inr res \<longrightarrow>
        (\<exists>oid t1 t2. ObjectId (param_sessionId params) = Some oid \<and>
           messages w' = messages w @
             [\<lparr>sessionId = oid, role = User, content = transcript res,
               message_createdAt = t1\<rparr>,
              \<lparr>sessionId = oid, role = Assistant, content = response res,
               message_createdAt = t2\<rparr>])) \<and>
     (\<forall>e. r = Inl e \<longrightarrow>
        messages w' = messages w \<or>
        (db_fault w (db_ops w + 2) \<and>
         (\<exists>m. role m = User \<and> messages w' = messages w @ [m]))) \<and>
     ((\<forall>k prompt. isl (chat_api w k prompt)) \<longrightarrow> isl r \<and> messages w' = messages w)"
    by blast
qed

text \<open>The example turn, evaluated: the run in the example world, the run when the
  text-generation provider answers 503 to every call, and the run when the third
  database operation (the second save) fails.\<close>

lemma example_turn:
  "handleVoiceConversation
     \<lparr>param_userId = ''0123456789abcdef01234567'',
      param_sessionId = ''0123456789abcdef01234567'',
      param_audioFilePath = ''/app/uploads/u1-a.wav.wav''\<rparr> example_world =
   (Inr \<lparr>audio = [73, 68, 51], transcript = ''hello'', response = ''hi there''\<rparr>,
    example_world\<lparr>whisper_calls := 1, chat_calls := 1, speech_calls := 1, db_ops := 3,
      clock := 1003,
      messages :=
        [\<lparr>sessionId = ''0123456789abcdef01234567'', role = User, content = ''hello'',
           message_createdAt = 1002\<rparr>,
         \<lparr>sessionId = ''0123456789abcdef01234567'', role = Assistant,
           content = ''hi there'', message_createdAt = 1003\<rparr>]\<rparr>)"
  by (simp add: handleVoiceConversation_def retryWithBackoff_def retry_loop.simps
      transcribeAudio_def generateResponse_def synthesizeSpeech_def
      getConversationHistory_def saveMessage_def db_begin_def example_world_def
      ObjectId_def is_hex_digit_def hex_lower_def mongo_limit_def trim_def white_space_def strip_leading.simps js_length_def
      utf16_units_def
      slice_last_def Let_def)

lemma example_turn_generator_down:
  "handleVoiceConversation
     \<lparr>param_userId = ''0123456789abcdef01234567'',
      param_sessionId = ''0123456789abcdef01234567'',
      param_audioFilePath = ''/app/uploads/u1-a.wav.wav''\<rparr>
     (example_world\<lparr>chat_api :=
        (\<lambda>k prompt. Inl ((new_Error ''Service Unavailable'')\<lparr>status := Some 503\<rparr>))\<rparr>) =
   (Inl (new_Error ''LLM failed: Service Unavailable''),
    example_world\<lparr>chat_api :=
        (\<lambda>k prompt. Inl ((new_Error ''Service Unavailable'')\<lparr>status := Some 503\<rparr>)),
      whisper_calls := 1, chat_calls := 3, db_ops := 1, clock := 1001\<rparr>)"
  by (simp add: handleVoiceConversation_def retryWithBackoff_def retry_loop.simps
      transcribeAudio_def generateResponse_def
      getConversationHistory_def db_begin_def example_world_def
      ObjectId_def is_hex_digit_def hex_lower_def mongo_limit_def trim_def white_space_def strip_leading.simps js_length_def
      utf16_units_def
      slice_last_def Let_def new_Error_def message_of_def client_error_status_def
      as_Error_def)

lemma example_turn_second_save_fails:
  "handleVoiceConversation
     \<lparr>param_userId = ''0123456789abcdef01234567'',
      param_sessionId = ''0123456789abcdef01234567'',
      param_audioFilePath = ''/app/uploads/u1-a.wav.wav''\<rparr>
     (example_world\<lparr>db_fault := (\<lambda>k. k = 2)\<rparr>) =
   (Inl db_error,
    example_world\<lparr>db_fault := (\<lambda>k. k = 2),
      whisper_calls := 1, chat_calls := 1, speech_calls := 1, db_ops := 3, clock := 1003,
      messages :=
        [\<lparr>sessionId = ''0123456789abcdef01234567'', role = User, content = ''hello'',
           message_createdAt = 1002\<rparr>]\<rparr>)"
  by (simp add: handleVoiceConversation_def retryWithBackoff_def retry_loop.simps
      transcribeAudio_def generateResponse_def synthesizeSpeech_def
      getConversationHistory_def saveMessage_def db_begin_def example_world_def
      ObjectId_def is_hex_digit_def hex_lower_def mongo_limit_def trim_def white_space_def strip_leading.simps js_length_def
      utf16_units_def
      slice_last_def Let_def)

text \<open>
  Witness of C2: in the example world the turn is persisted whole; when the
  text-generation provider answers 503 to every call, the invocation throws after three
  calls of the provider and persists nothing.
\<close>

theorem turn_persistence_witness:
  "map (\<lambda>m. (role m, content m))
     (messages (snd (handleVoiceConversation
        \<lparr>param_userId = ''0123456789abcdef01234567'',
         param_sessionId = ''0123456789abcdef01234567'',
         param_audioFilePath = ''/app/uploads/u1-a.wav.wav''\<rparr> example_world))) =
     [(User, ''hello''), (Assistant, ''hi there'')] \<and>
   isl (fst (handleVoiceConversation
        \<lparr>param_userId = ''0123456789abcdef01234567'',
         param_sessionId = ''0123456789abcdef01234567'',
         param_audioFilePath = ''/app/uploads/u1-a.wav.wav''\<rparr>
        (example_world\<lparr>chat_api :=
           (\<lambda>k prompt. Inl ((new_Error ''Service Unavailable'')\<lparr>status := Some 503\<rparr>))\<rparr>))) \<and>
   messages (snd (handleVoiceConversation
        \<lparr>param_userId = ''0123456789abcdef01234567'',
         param_sessionId = ''0123456789abcdef01234567'',
         param_audioFilePath = ''/app/uploads/u1-a.wav.wav''\<rparr>
        (example_world\<lparr>chat_api :=
           (\<lambda>k prompt. Inl ((new_Error ''Service Unavailable'')\<lparr>status := Some 503\<rparr>))\<rparr>))) =
     []"
  using
    turn_persistence [THEN mp, OF example_turn]
    turn_persistence [THEN mp, OF example_turn_generator_down]
  by (simp add: example_turn example_turn_generator_down)

text \<open>
  Counterexample to C2 as stated: the providers answer and the first save succeeds,
  then the second save fails on a database fault. The invocation throws, and the user
  message of the turn is persisted without its assistant message.
\<close>

theorem turn_persistence_counterexample:
  "fst (handleVoiceConversation
        \<lparr>param_userId = ''0123456789abcdef01234567'',
         param_sessionId = ''0123456789abcdef01234567'',
         param_audioFilePath = ''/app/uploads/u1-a.wav.wav''\<rparr>
        (example_world\<lparr>db_fault := (\<lambda>k. k = 2)\<rparr>)) = Inl db_error \<and>
   messages (example_world\<lparr>db_fault := (\<lambda>k. k = 2)\<rparr>) = [] \<and>
   map (\<lambda>m. (role m, content m))
     (messages (snd (handleVoiceConversation
        \<lparr>param_userId = ''0123456789abcdef01234567'',
         param_sessionId = ''0123456789abcdef01234567'',
         param_audioFilePath = ''/app/uploads/u1-a.wav.wav''\<rparr>
        (example_world\<lparr>db_fault := (\<lambda>k. k = 2)\<rparr>)))) = [(User, ''hello'')]"
  by (simp add: example_turn_second_save_fails) (simp add: example_world_def)

section \<open>Properties of the endpoint: temporary files\<close>

lemma same_disk_refl: "same_disk w w"
  by (simp add: same_disk_def)

lemma same_disk_trans: "same_disk a b \<Longrightarrow> same_disk b c \<Longrightarrow> same_disk a c"
  by (simp add: same_disk_def)

lemma transcribeAudio_disk: "same_disk s (snd (transcribeAudio path s))"
  by (simp add: same_disk_def transcribeAudio_def Let_def split: sum.splits)

lemma generateResponse_disk: "same_disk s (snd (generateResponse t h s))"
  by (simp add: same_disk_def generateResponse_def Let_def split: sum.splits option.splits)

lemma synthesizeSpeech_disk: "same_disk s (snd (synthesizeSpeech t s))"
  by (simp add: same_disk_def synthesizeSpeech_def Let_def split: sum.splits)

lemma retryWithBackoff_same_disk:
  assumes "\<And>x. same_disk x (snd (operation x))"
    and "retryWithBackoff operation maxRetries s = (r, s', tr)"
  shows "same_disk s s'"
  using retryWithBackoff_invariant [where I = "same_disk s", OF _ same_disk_refl assms(2)]
    assms(1) same_disk_trans by blast

lemma getConversationHistory_disk:
  "getConversationHistory sid limit s = (r, s') \<Longrightarrow> same_disk s s'"
  by (auto simp: getConversationHistory_def db_begin_def same_disk_def
      split: if_splits option.splits bool.splits)

lemma saveMessage_disk: "saveMessage sid r c s = (res, s') \<Longrightarrow> same_disk s s'"
  by (auto simp: saveMessage_def db_begin_def same_disk_def
      split: if_splits option.splits bool.splits)

lemma createSession_disk: "createSession uid s = (r, s') \<Longrightarrow> same_disk s s'"
  by (auto simp: createSession_def db_begin_def same_disk_def Let_def split: bool.splits)

lemma getOrCreateSession_disk:
  assumes "getOrCreateSession uid sid s = (r, s')"
  shows "same_disk s s'"
proof (cases "truthy sid")
  case None
  with assms show ?thesis by (auto simp: getOrCreateSession_def dest: createSession_disk)
next
  case (Some x)
  obtain r1 s1 where G: "getSession x uid s = (r1, s1)" by (cases "getSession x uid s")
  then have d1: "same_disk s s1"
    by (auto simp: getSession_def db_begin_def same_disk_def
        split: option.splits bool.splits)
  show ?thesis
  proof (cases r1)
    case (Inl e)
    with assms Some G d1 show ?thesis by (simp add: getOrCreateSession_def)
  next
    case (Inr found)
    show ?thesis
    proof (cases found)
      case None
      with assms Some G Inr have "createSession uid s1 = (r, s')"
        by (simp add: getOrCreateSession_def)
      from createSession_disk [OF this] d1 show ?thesis by (rule same_disk_trans [rotated])
    next
      case (Some session)
      obtain r2 s2 where U: "findByIdAndUpdate_lastActivityAt x s1 = (r2, s2)"
        by (cases "findByIdAndUpdate_lastActivityAt x s1")
      then have d2: "same_disk s1 s2"
        by (auto simp: findByIdAndUpdate_lastActivityAt_def db_begin_def same_disk_def
            split: option.splits bool.splits)
      from assms \<open>truthy sid = Some x\<close> G Inr Some U have "s' = s2"
        by (cases r2) (simp_all add: getOrCreateSession_def)
      with d1 d2 show ?thesis by (auto intro: same_disk_trans)
    qed
  qed
qed

lemma handleVoiceConversation_disk:
  assumes run: "handleVoiceConversation params w = (r, w')"
  shows "same_disk w w'"
proof -
  let ?sid = "param_sessionId params"
  obtain r1 w1 tr1 where R1:
    "retryWithBackoff (transcribeAudio (param_audioFilePath params)) (Some 2) w = (r1, w1, tr1)"
    by (metis prod_cases3)
  have F1: "same_disk w w1"
    by (rule retryWithBackoff_same_disk [OF transcribeAudio_disk R1])
  show ?thesis
  proof (cases r1)
    case (Inl e)
    with R1 run F1 show ?thesis by (auto simp: handleVoiceConversation_def)
  next
    case t: (Inr t)
    show ?thesis
    proof (cases "t = [] \<or> js_length (trim t) = 0")
      case True
      with R1 t run F1 show ?thesis by (auto simp: handleVoiceConversation_def)
    next
      case speech: False
      obtain rh w2 where H: "getConversationHistory ?sid (Some 20) w1 = (rh, w2)"
        by (cases "getConversationHistory ?sid (Some 20) w1")
      from getConversationHistory_disk [OF H] F1 have F2: "same_disk w w2"
        by (auto intro: same_disk_trans)
      show ?thesis
      proof (cases rh)
        case (Inl e)
        with R1 t speech H run F2 show ?thesis by (auto simp: handleVoiceConversation_def)
      next
        case h: (Inr h)
        obtain r3 w3 tr3 where R3:
          "retryWithBackoff (generateResponse t h) (Some 2) w2 = (r3, w3, tr3)"
          by (metis prod_cases3)
        from retryWithBackoff_same_disk [OF generateResponse_disk R3] F2
        have F3: "same_disk w w3" by (auto intro: same_disk_trans)
        show ?thesis
        proof (cases r3)
          case (Inl e)
          with R1 t speech H h R3 run F3 show ?thesis
            by (auto simp: handleVoiceConversation_def)
        next
          case a: (Inr a)
          obtain r4 w4 tr4 where R4:
            "retryWithBackoff (synthesizeSpeech a) (Some 2) w3 = (r4, w4, tr4)"
            by (metis prod_cases3)
          from retryWithBackoff_same_disk [OF synthesizeSpeech_disk R4] F3
          have F4: "same_disk w w4" by (auto intro: same_disk_trans)
          show ?thesis
          proof (cases r4)
            case (Inl e)
            with R1 t speech H h R3 a R4 run F4 show ?thesis
              by (auto simp: handleVoiceConversation_def)
          next
            case au: (Inr au)
            obtain r5 w5 where S1: "saveMessage ?sid User t w4 = (r5, w5)"
              by (cases "saveMessage ?sid User t w4")
            from saveMessage_disk [OF S1] F4 have F5: "same_disk w w5"
              by (auto intro: same_disk_trans)
            show ?thesis
            proof (cases r5)
              case (Inl e)
              with R1 t speech H h R3 a R4 au S1 run F5 show ?thesis
                by (auto simp: handleVoiceConversation_def)
            next
              case u: (Inr u)
              obtain r6 w6 where S2: "saveMessage ?sid Assistant a w5 = (r6, w6)"
                by (cases "saveMessage ?sid Assistant a w5")
              from saveMessage_disk [OF S2] F5 have F6: "same_disk w w6"
                by (auto intro: same_disk_trans)
              from R1 t speech H h R3 a R4 au S1 u S2 run have "w' = w6"
                by (cases r6) (simp_all add: handleVoiceConversation_def)
              with F6 show ?thesis by simp
            qed
          qed
        qed
      qed
    qed
  qed
qed

lemma validateAudio_returns: "\<exists>v. validateAudio w filePath = Inr v"
  by (simp add: validateAudio_def split: sum.splits)

lemma cleanupFile_files:
  "\<not> unlink_fault s q \<Longrightarrow> q \<noteq> [] \<Longrightarrow>
     files (cleanupFile (Some q) s) = (files s)(q := None) \<and>
     unlink_fault (cleanupFile (Some q) s) = unlink_fault s"
  by (auto simp: cleanupFile_def truthy_def fun_eq_iff)

text \<open>
  Where the endpoint does clean up. When \<^verbatim>\<open>unlink\<close> never fails and the two temporary
  names are unused before the request, every exit of \<^verbatim>\<open>POST\<close> leaves the disk as it
  found it, except the early return on an invalid validation result, which leaves the
  uploaded file behind.
\<close>

lemma POST_disk:
  assumes nofault: "\<And>q. \<not> unlink_fault w q"
    and fresh: "\<And>f. form_audio fd = Some f \<Longrightarrow>
      files w (audioFilePath_of w f) = None \<and>
      files w ((audioFilePath_of w f) @ ''.wav'') = None"
    and form: "formData req = Inr fd"
  shows "files (snd (POST req w)) = files w \<or>
    (\<exists>f reason. form_audio fd = Some f \<and>
       fst (POST req w) = Inr (Json 400 ''VALIDATION_ERROR'' reason) \<and>
       files (snd (POST req w)) =
         (files w)(audioFilePath_of w f \<mapsto> upload_size f))"
proof (cases "authenticate req")
  case (Inl resp)
  then show ?thesis by (simp add: POST_def)
next
  case uid: (Inr uid)
  show ?thesis
  proof (cases "form_audio fd")
    case None
    with uid form show ?thesis by (simp add: POST_def)
  next
    case f: (Some f)
    let ?p = "audioFilePath_of w f"
    from fresh [OF f] have fp: "files w ?p = None" and fpw: "files w (?p @ ''.wav'') = None"
      by simp_all
    have pne: "?p \<noteq> []" "?p @ ''.wav'' \<noteq> []" "?p \<noteq> ?p @ ''.wav''"
      by (simp_all add: audioFilePath_of_def)
    show ?thesis
    proof (cases "upload_type f \<notin> set ALLOWED_TYPES \<or> upload_size f > maxSize w")
      case True
      with uid form f show ?thesis by (auto simp: POST_def)
    next
      case ok: False
      show ?thesis
      proof (cases "write_fault w ?p")
        case True
        with uid form f ok fp pne show ?thesis
          by (simp add: POST_def Let_def writeFile_def POST_catch_def cleanupFile_def
              truthy_def)
      next
        case wr: False
        let ?w1 = "w\<lparr>files := (files w)(?p \<mapsto> upload_size f)\<rparr>"
        obtain v where V: "validateAudio ?w1 ?p = Inr v"
          using validateAudio_returns [of ?w1 ?p] by blast
        show ?thesis
        proof (cases "valid v")
          case False
          with uid form f ok wr V show ?thesis
            by (simp add: POST_def Let_def writeFile_def)
        next
          case val: True
          obtain rs w2 where S: "getOrCreateSession uid (truthy (form_sessionId fd)) ?w1 = (rs, w2)"
            by (cases "getOrCreateSession uid (truthy (form_sessionId fd)) ?w1")
          from getOrCreateSession_disk [OF S]
          have d2: "files w2 = (files w)(?p \<mapsto> upload_size f)" "unlink_fault w2 = unlink_fault w"
            by (simp_all add: same_disk_def)
          show ?thesis
          proof (cases rs)
            case (Inl e)
            with uid form f ok wr V val S d2 nofault fp pne show ?thesis
              by (simp add: POST_def Let_def writeFile_def POST_catch_def cleanupFile_def
                  truthy_def fun_upd_idem)
          next
            case sid: (Inr sid)
            obtain pp w3 where P: "prepareAudioForWhisper ?p w2 = (pp, w3)"
              by (cases "prepareAudioForWhisper ?p w2")
            have d3: "unlink_fault w3 = unlink_fault w \<and>
              ((pp = ?p \<and> files w3 = (files w)(?p \<mapsto> upload_size f)) \<or>
               (pp = ?p @ ''.wav'' \<and>
                (\<exists>m. files w3 =
                   (files w)(?p \<mapsto> upload_size f, ?p @ ''.wav'' \<mapsto> m, ?p := None))))"
            proof (cases "ffmpeg w2 ?p")
              case None
              with P d2 show ?thesis by (simp add: prepareAudioForWhisper_def)
            next
              case (Some m)
              with P d2 nofault have "pp = ?p @ ''.wav''" and
                "files w3 = (files w2)(?p @ ''.wav'' \<mapsto> m, ?p := None)" and
                "unlink_fault w3 = unlink_fault w2"
                by (auto simp: prepareAudioForWhisper_def Let_def)
              with d2 show ?thesis by auto
            qed
            obtain rh w4 where Hd: "handleVoiceConversation
                \<lparr>param_userId = uid, param_sessionId = sid, param_audioFilePath = pp\<rparr> w3 =
                (rh, w4)"
              by (cases "handleVoiceConversation
                \<lparr>param_userId = uid, param_sessionId = sid, param_audioFilePath = pp\<rparr> w3")
            from handleVoiceConversation_disk [OF Hd]
            have d4: "files w4 = files w3" "unlink_fault w4 = unlink_fault w3"
              by (simp_all add: same_disk_def)
            have clean: "files (cleanupFile (Some ?p) (cleanupFile (Some pp) w4)) = files w \<and>
              (pp = ?p \<longrightarrow> files (cleanupFile (Some pp) w4) = files w)"
            proof -
              from d3 consider (same) "pp = ?p" "files w3 = (files w)(?p \<mapsto> upload_size f)"
                | (converted) m where "pp = ?p @ ''.wav''"
                    "files w3 =
                       (files w)(?p \<mapsto> upload_size f, ?p @ ''.wav'' \<mapsto> m, ?p := None)"
                by blast
              then show ?thesis
              proof cases
                case same
                with d3 d4 nofault fp pne show ?thesis
                  by (simp add: cleanupFile_def truthy_def fun_eq_iff)
              next
                case converted
                with d3 d4 nofault fp fpw pne show ?thesis
                  by (simp add: cleanupFile_def truthy_def fun_eq_iff)
              qed
            qed
            from d3 pne have ppne: "pp \<noteq> []" by auto
            show ?thesis
            proof (cases rh)
              case (Inl e)
              with uid form f ok wr V val S sid P Hd clean pne ppne show ?thesis
                by (cases "pp = ?p")
                   (simp_all add: POST_def Let_def writeFile_def POST_catch_def truthy_def)
            next
              case (Inr res)
              with uid form f ok wr V val S sid P Hd clean show ?thesis
                by (cases "pp = ?p") (simp_all add: POST_def Let_def writeFile_def)
            qed
          qed
        qed
      qed
    qed
  qed
qed

lemma POST_disk_no_form:
  "formData req = Inl e \<Longrightarrow> files (snd (POST req w)) = files w"
  by (simp add: POST_def POST_catch_def truthy_def split: sum.splits)

text \<open>
  C1, the code at a failing input. The upload is a WAV file of 1000 bytes whose probed
  duration is 400 seconds, over the limit of 300. \<^verbatim>\<open>POST\<close> writes the temporary file,
  \<^verbatim>\<open>validateAudio\<close> answers invalid, and the handler returns the 400 response from
  inside its \<^verbatim>\<open>try\<close>: the \<^verbatim>\<open>catch\<close> block, which alone removes the file on a failure,
  does not run, and the temporary file is still on disk. In the example world, where
  the audio lasts three seconds, the request succeeds and no file is left.
\<close>

theorem POST_validation_failure_leaves_file:
  "POST
     \<lparr>authenticate = Inr ''0123456789abcdef01234567'',
      formData = Inr \<lparr>form_audio = Some \<lparr>upload_name = ''a.wav'',
        upload_type = ''audio/wav'', upload_size = 1000\<rparr>, form_sessionId = None\<rparr>\<rparr>
     (example_world\<lparr>ffprobe := (\<lambda>path. Some (Num 400))\<rparr>) =
     (Inr (Json 400 ''VALIDATION_ERROR''
        (Some ''Audio duration too long (400s). Maximum: 300s'')),
      example_world\<lparr>ffprobe := (\<lambda>path. Some (Num 400)),
        files := [''/app/uploads/u1-a.wav'' \<mapsto> 1000]\<rparr>) \<and>
   files (snd (POST
     \<lparr>authenticate = Inr ''0123456789abcdef01234567'',
      formData = Inr \<lparr>form_audio = Some \<lparr>upload_name = ''a.wav'',
        upload_type = ''audio/wav'', upload_size = 1000\<rparr>, form_sessionId = None\<rparr>\<rparr>
     (example_world\<lparr>ffprobe := (\<lambda>path. Some (Num 400))\<rparr>))) ''/app/uploads/u1-a.wav'' =
     Some 1000 \<and>
   fst (POST
     \<lparr>authenticate = Inr ''0123456789abcdef01234567'',
      formData = Inr \<lparr>form_audio = Some \<lparr>upload_name = ''a.wav'',
        upload_type = ''audio/wav'', upload_size = 1000\<rparr>, form_sessionId = None\<rparr>\<rparr>
     example_world) =
     Inr (AudioResponse [73, 68, 51] ''000000000000000000000000'' ''hello'' ''hi there'') \<and>
   files (snd (POST
     \<lparr>authenticate = Inr ''0123456789abcdef01234567'',
      formData = Inr \<lparr>form_audio = Some \<lparr>upload_name = ''a.wav'',
        upload_type = ''audio/wav'', upload_size = 1000\<rparr>, form_sessionId = None\<rparr>\<rparr>
     example_world)) = Map.empty"
  by (simp add: POST_def audioFilePath_of_def ALLOWED_TYPES_def maxSize_def writeFile_def
      validateAudio_def
      validateAudio_try_def invalid_audio_def maxDuration_def show_round_def show_nat.simps
      example_world_def getOrCreateSession_def createSession_def truthy_def
      prepareAudioForWhisper_def cleanupFile_def
      handleVoiceConversation_def retryWithBackoff_def retry_loop.simps
      transcribeAudio_def generateResponse_def synthesizeSpeech_def
      getConversationHistory_def saveMessage_def db_begin_def
      ObjectId_def is_hex_digit_def hex_lower_def mongo_limit_def trim_def white_space_def strip_leading.simps js_length_def
      utf16_units_def
      slice_last_def Let_def fun_upd_def fun_eq_iff)

end
